theory Spec2Isabelle
  imports Complex_Main
begin

section \<open>JavaScript values\<close>

text \<open>
  Request queries, request bodies and filter bags are JavaScript objects. Their values are
  modelled by \<open>jsval\<close>: undefined, null, booleans, integers, strings and arrays of strings
  (what Express's query parser delivers for plain and repeated keys, and what a JSON body
  carries in the fields the code reads). Nested objects, nested arrays and fractional numbers
  are outside the type. Strings are lists of 8-bit characters, read as the code points
  U+0000 to U+00FF.
\<close>

datatype jsval =
    JUndefined
  | JNull
  | JBool bool
  | JNum int
  | JStr string
  | JArr "string list"

text \<open>An object is a finite map from property names to values; a missing property reads
  as undefined.\<close>

type_synonym jsobj = "string \<rightharpoonup> jsval"

definition field :: "jsobj \<Rightarrow> string \<Rightarrow> jsval" where
  "field obj k = (case obj k of None \<Rightarrow> JUndefined | Some v \<Rightarrow> v)"

text \<open>ToBoolean: what \<open>if (v)\<close>, \<open>!v\<close> and \<open>v || w\<close> test.\<close>

fun truthy :: "jsval \<Rightarrow> bool" where
  "truthy JUndefined = False"
| "truthy JNull = False"
| "truthy (JBool b) = b"
| "truthy (JNum n) = (n \<noteq> 0)"
| "truthy (JStr s) = (s \<noteq> [])"
| "truthy (JArr xs) = True"

definition js_or :: "jsval \<Rightarrow> jsval \<Rightarrow> jsval" where
  "js_or a b = (if truthy a then a else b)"

definition isArray :: "jsval \<Rightarrow> bool" where
  "isArray v = (case v of JArr xs \<Rightarrow> True | _ \<Rightarrow> False)"

subsection \<open>Numbers and strings\<close>

fun show_nat :: "nat \<Rightarrow> string" where
  "show_nat n =
     (if n < 10 then [''0123456789'' ! n]
      else show_nat (n div 10) @ [''0123456789'' ! (n mod 10)])"

declare show_nat.simps [simp del]

definition show_int :: "int \<Rightarrow> string" where
  "show_int i = (if i < 0 then CHR ''-'' # show_nat (nat (- i)) else show_nat (nat i))"

fun join :: "string \<Rightarrow> string list \<Rightarrow> string" where
  "join sep [] = []"
| "join sep [x] = x"
| "join sep (x # y # ys) = x @ sep @ join sep (y # ys)"

text \<open>ToString, as a template literal and \<open>parseInt\<close> apply it.\<close>

fun toString :: "jsval \<Rightarrow> string" where
  "toString JUndefined = ''undefined''"
| "toString JNull = ''null''"
| "toString (JBool b) = (if b then ''true'' else ''false'')"
| "toString (JNum n) = show_int n"
| "toString (JStr s) = s"
| "toString (JArr xs) = join '','' xs"

text \<open>White space and line terminators of JavaScript within U+0000 to U+00FF.\<close>

definition js_space :: "char \<Rightarrow> bool" where
  "js_space c = (c \<in> set [CHR 0x09, CHR 0x0A, CHR 0x0B, CHR 0x0C, CHR 0x0D, CHR 0x20, CHR 0xA0])"

definition trim :: "string \<Rightarrow> string" where
  "trim s = rev (dropWhile js_space (rev (dropWhile js_space s)))"

text \<open>\<open>s.split(',')\<close>: the pieces between the separators, empty pieces kept.\<close>

fun split_on :: "char \<Rightarrow> string \<Rightarrow> string list" where
  "split_on sep [] = [[]]"
| "split_on sep (c # cs) =
     (if c = sep then [] # split_on sep cs
      else (case split_on sep cs of
              [] \<Rightarrow> [[c]]
            | p # ps \<Rightarrow> (c # p) # ps))"

definition lower_char :: "char \<Rightarrow> char" where
  "lower_char c =
     (let n = (of_char c :: nat) in if 65 \<le> n \<and> n \<le> 90 then char_of (n + 32) else c)"

definition upper_char :: "char \<Rightarrow> char" where
  "upper_char c =
     (let n = (of_char c :: nat) in if 97 \<le> n \<and> n \<le> 122 then char_of (n - 32) else c)"

text \<open>Case mapping on the ASCII letters; the other characters are left as they are.\<close>

definition toLowerCase :: "string \<Rightarrow> string" where
  "toLowerCase s = map lower_char s"

definition toUpperCase :: "string \<Rightarrow> string" where
  "toUpperCase s = map upper_char s"

subsection \<open>parseInt\<close>

definition digit_val :: "char \<Rightarrow> nat option" where
  "digit_val c =
     (let n = (of_char c :: nat)
      in if 48 \<le> n \<and> n \<le> 57 then Some (n - 48)
         else if 97 \<le> n \<and> n \<le> 122 then Some (n - 87)
         else if 65 \<le> n \<and> n \<le> 90 then Some (n - 55)
         else None)"

definition is_digit :: "nat \<Rightarrow> char \<Rightarrow> bool" where
  "is_digit radix c = (case digit_val c of None \<Rightarrow> False | Some d \<Rightarrow> d < radix)"

definition digits_value :: "nat \<Rightarrow> string \<Rightarrow> nat" where
  "digits_value radix ds = foldl (\<lambda>acc c. acc * radix + (case digit_val c of None \<Rightarrow> 0 | Some d \<Rightarrow> d)) 0 ds"

text \<open>
  \<open>parseInt(v)\<close> with no radix: the value is converted to a string, leading white space
  is skipped, a sign is read, a \<open>0x\<close> or \<open>0X\<close> prefix selects base 16, and the longest
  prefix of digits is the result; no digit at all is NaN, here \<open>None\<close>. The result is the
  exact integer (the rounding of integers beyond 2^53 is not modelled).
\<close>

definition parseInt :: "jsval \<Rightarrow> int option" where
  "parseInt v =
     (let s = dropWhile js_space (toString v);
          neg = (case s of c # _ \<Rightarrow> c = CHR ''-'' | [] \<Rightarrow> False);
          s1 = (case s of c # cs \<Rightarrow> if c = CHR ''-'' \<or> c = CHR ''+'' then cs else s | [] \<Rightarrow> s);
          hex = (take 2 s1 = ''0x'' \<or> take 2 s1 = ''0X'');
          radix = (if hex then 16 else 10);
          s2 = (if hex then drop 2 s1 else s1);
          ds = takeWhile (is_digit radix) s2
      in if ds = [] then None
         else Some ((if neg then - 1 else 1) * int (digits_value radix ds)))"

section \<open>Pagination Engine: validatePagination\<close>

record page_limit =
  sanitizedPage :: int
  sanitizedLimit :: int

text \<open>\<open>parseInt(x) || d\<close>: NaN and 0 are falsy.\<close>

definition parseInt_or :: "jsval \<Rightarrow> int \<Rightarrow> int" where
  "parseInt_or v d = (case parseInt v of None \<Rightarrow> d | Some n \<Rightarrow> if n = 0 then d else n)"

definition validatePagination :: "jsval \<Rightarrow> jsval \<Rightarrow> int \<Rightarrow> page_limit" where
  "validatePagination p l maxLimit =
     \<lparr> sanitizedPage = max 1 (parseInt_or p 1),
       sanitizedLimit = min maxLimit (max 1 (parseInt_or l 10)) \<rparr>"

section \<open>Errors\<close>

text \<open>
  A thrown exception is a value: a \<open>TypeError\<close> of the runtime, an \<open>Error\<close> thrown by the
  code with its message, or an error raised by the storage engine, named by its SQLSTATE code.
\<close>

datatype error =
    TypeError string
  | Error string
  | PgError string

section \<open>Filter Compiler: BaseOpportunityModel.buildWhereClause\<close>

text \<open>
  A predicate pushed on \<open>conditions\<close> is kept with the positional parameters it refers to;
  \<open>render\<close> gives the SQL text the source builds for it. Bound values are JavaScript values
  or \<open>Date\<close> objects (milliseconds since the epoch).
\<close>

datatype cond =
    TypeEq nat
  | StatusEq nat
  | CityLike nat
  | CountryLike nat
  | WorkStyleEq nat
  | IsFeatured
  | IsVerified
  | Search nat
  | TagsOverlap nat
  | SkillsOverlap nat
  | DomainOverlap nat
  | FeesEq nat
  | DeadlineBetween nat nat

datatype pval = PVal jsval | PDate int

definition dollar :: "nat \<Rightarrow> string" where
  "dollar i = CHR ''$'' # show_nat i"

definition sq :: string where
  "sq = [CHR 0x27]"

definition nl :: string where
  "nl = [CHR 0x0A]"

fun render :: "string \<Rightarrow> cond \<Rightarrow> string" where
  "render typeField (TypeEq i) = typeField @ '' = '' @ dollar i"
| "render typeField (StatusEq i) = ''status = '' @ dollar i"
| "render typeField (CityLike i) = ''LOWER(city) LIKE LOWER('' @ dollar i @ '')''"
| "render typeField (CountryLike i) = ''LOWER(country) LIKE LOWER('' @ dollar i @ '')''"
| "render typeField (WorkStyleEq i) = ''work_style = '' @ dollar i"
| "render typeField IsFeatured = ''is_featured = true''"
| "render typeField IsVerified = ''is_verified = true''"
| "render typeField (Search i) =
     nl @ ''        (to_tsvector('' @ sq @ ''english'' @ sq @ '', title || '' @ sq @ '' '' @ sq
        @ '' || COALESCE(organization, '' @ sq @ sq @ '') || '' @ sq @ '' '' @ sq
        @ '' || COALESCE(company, '' @ sq @ sq @ '')) '' @ nl
        @ ''        @@ plainto_tsquery('' @ sq @ ''english'' @ sq @ '', '' @ dollar i @ ''))'' @ nl
        @ ''      ''"
| "render typeField (TagsOverlap i) = ''tags && '' @ dollar i"
| "render typeField (SkillsOverlap i) = ''skills && '' @ dollar i"
| "render typeField (DomainOverlap i) = ''domain && '' @ dollar i"
| "render typeField (FeesEq i) = ''fees = '' @ dollar i"
| "render typeField (DeadlineBetween i j) = ''deadline BETWEEN '' @ dollar i @ '' AND '' @ dollar j"

record where_state =
  conditions :: "cond list"
  vals :: "pval list"
  paramIndex :: nat

text \<open>\<open>conditions.push(c); values.push(v); paramIndex++\<close>. The array \<open>values\<close> of the
  source is the field \<open>vals\<close>.\<close>

definition push :: "cond \<Rightarrow> pval \<Rightarrow> where_state \<Rightarrow> where_state" where
  "push c v s =
     s\<lparr> conditions := conditions s @ [c], vals := vals s @ [v], paramIndex := paramIndex s + 1 \<rparr>"

definition type_filter :: "jsobj \<Rightarrow> where_state \<Rightarrow> where_state" where
  "type_filter filters s =
     (if truthy (field filters ''type'')
      then push (TypeEq (paramIndex s)) (PVal (field filters ''type'')) s
      else s)"

text \<open>The status predicate defaults to \<open>active\<close> unless \<open>includeInactive\<close> is set.\<close>

definition status_filter :: "jsobj \<Rightarrow> where_state \<Rightarrow> where_state" where
  "status_filter filters s =
     (if truthy (field filters ''status'')
      then push (StatusEq (paramIndex s)) (PVal (field filters ''status'')) s
      else if \<not> truthy (field filters ''includeInactive'')
      then push (StatusEq (paramIndex s)) (PVal (JStr ''active'')) s
      else s)"

definition city_filter :: "jsobj \<Rightarrow> where_state \<Rightarrow> where_state" where
  "city_filter filters s =
     (if truthy (field filters ''city'')
      then push (CityLike (paramIndex s))
             (PVal (JStr (''%'' @ toString (field filters ''city'') @ ''%''))) s
      else s)"

definition country_filter :: "jsobj \<Rightarrow> where_state \<Rightarrow> where_state" where
  "country_filter filters s =
     (if truthy (field filters ''country'')
      then push (CountryLike (paramIndex s))
             (PVal (JStr (''%'' @ toString (field filters ''country'') @ ''%''))) s
      else s)"

definition work_style_filter :: "jsobj \<Rightarrow> where_state \<Rightarrow> where_state" where
  "work_style_filter filters s =
     (if truthy (field filters ''work_style'')
      then push (WorkStyleEq (paramIndex s)) (PVal (field filters ''work_style'')) s
      else s)"

text \<open>The two flags push a predicate without a parameter.\<close>

definition featured_filter :: "jsobj \<Rightarrow> where_state \<Rightarrow> where_state" where
  "featured_filter filters s =
     (if field filters ''featured'' = JStr ''true'' \<or> field filters ''featured'' = JBool True
      then s\<lparr> conditions := conditions s @ [IsFeatured] \<rparr>
      else s)"

definition verified_filter :: "jsobj \<Rightarrow> where_state \<Rightarrow> where_state" where
  "verified_filter filters s =
     (if field filters ''verified'' = JStr ''true'' \<or> field filters ''verified'' = JBool True
      then s\<lparr> conditions := conditions s @ [IsVerified] \<rparr>
      else s)"

definition search_filter :: "jsobj \<Rightarrow> where_state \<Rightarrow> where_state" where
  "search_filter filters s =
     (if truthy (field filters ''search'')
      then push (Search (paramIndex s)) (PVal (field filters ''search'')) s
      else s)"

text \<open>
  \<open>Array.isArray(v) ? v : v.split(',').map(t => t.trim())\<close>, evaluated on a truthy value:
  a value that is neither an array nor a string has no \<open>split\<close> method.
\<close>

definition to_array :: "jsval \<Rightarrow> error + string list" where
  "to_array v =
     (case v of
        JArr xs \<Rightarrow> Inr xs
      | JStr s \<Rightarrow> Inr (map trim (split_on CHR '','' s))
      | _ \<Rightarrow> Inl (TypeError ''split is not a function''))"

definition array_filter ::
  "string \<Rightarrow> (nat \<Rightarrow> cond) \<Rightarrow> jsobj \<Rightarrow> where_state \<Rightarrow> error + where_state" where
  "array_filter key mk filters s =
     (if truthy (field filters key)
      then (case to_array (field filters key) of
              Inl e \<Rightarrow> Inl e
            | Inr xs \<Rightarrow> Inr (push (mk (paramIndex s)) (PVal (JArr xs)) s))
      else Inr s)"

definition fees_filter :: "jsobj \<Rightarrow> where_state \<Rightarrow> where_state" where
  "fees_filter filters s =
     (if truthy (field filters ''fees'')
      then push (FeesEq (paramIndex s)) (PVal (field filters ''fees'')) s
      else s)"

definition push_window :: "int \<Rightarrow> int \<Rightarrow> where_state \<Rightarrow> where_state" where
  "push_window now days s =
     s\<lparr> conditions := conditions s @ [DeadlineBetween (paramIndex s) (paramIndex s + 1)],
        vals := vals s @ [PDate now, PDate (now + days * 24 * 60 * 60 * 1000)],
        paramIndex := paramIndex s + 2 \<rparr>"

text \<open>The \<open>switch\<close> on \<open>filters.deadline\<close>; \<open>now\<close> is the value of \<open>new Date()\<close>.\<close>

definition deadline_filter :: "jsobj \<Rightarrow> int \<Rightarrow> where_state \<Rightarrow> where_state" where
  "deadline_filter filters now s =
     (if truthy (field filters ''deadline'')
      then (if field filters ''deadline'' = JStr ''upcoming'' then push_window now 30 s
            else if field filters ''deadline'' = JStr ''this_week'' then push_window now 7 s
            else if field filters ''deadline'' = JStr ''this_month'' then push_window now 30 s
            else s)
      else s)"

definition buildWhereClause :: "jsobj \<Rightarrow> int \<Rightarrow> error + where_state" where
  "buildWhereClause filters now =
     (let s0 = \<lparr> conditions = [], vals = [], paramIndex = 1 \<rparr>;
          s1 = type_filter filters s0;
          s2 = status_filter filters s1;
          s3 = city_filter filters s2;
          s4 = country_filter filters s3;
          s5 = work_style_filter filters s4;
          s6 = featured_filter filters s5;
          s7 = verified_filter filters s6;
          s8 = search_filter filters s7
      in case array_filter ''tags'' TagsOverlap filters s8 of
           Inl e \<Rightarrow> Inl e
         | Inr s9 \<Rightarrow>
             (case array_filter ''skills'' SkillsOverlap filters s9 of
                Inl e \<Rightarrow> Inl e
              | Inr s10 \<Rightarrow>
                  (case array_filter ''domain'' DomainOverlap filters s10 of
                     Inl e \<Rightarrow> Inl e
                   | Inr s11 \<Rightarrow> Inr (deadline_filter filters now (fees_filter filters s11)))))"

text \<open>The text of the clause: the conditions joined by \<open>AND\<close>, or the empty string.\<close>

definition whereClause :: "string \<Rightarrow> where_state \<Rightarrow> string" where
  "whereClause typeField s =
     (if conditions s = [] then []
      else ''WHERE '' @ join '' AND '' (map (render typeField) (conditions s)))"

section \<open>Sort Compiler: BaseOpportunityModel.buildOrderClause\<close>

record order_clause =
  sortField :: string
  sortOrder :: string

definition validSortFields :: "string list" where
  "validSortFields =
     [''posted_date'', ''deadline'', ''view_count'', ''created_at'', ''event_date'', ''title'']"

definition validOrders :: "string list" where
  "validOrders = [''asc'', ''desc'']"

text \<open>\<open>Array.isArray(v) ? v[0] : v\<close>; the first element of an empty array is undefined.\<close>

definition first_of :: "jsval \<Rightarrow> jsval" where
  "first_of v = (case v of JArr [] \<Rightarrow> JUndefined | JArr (x # xs) \<Rightarrow> JStr x | _ \<Rightarrow> v)"

text \<open>A default parameter value replaces an argument that is undefined.\<close>

definition default_arg :: "jsval \<Rightarrow> jsval \<Rightarrow> jsval" where
  "default_arg v d = (if v = JUndefined then d else v)"

definition buildOrderClause :: "jsval \<Rightarrow> jsval \<Rightarrow> order_clause" where
  "buildOrderClause sort' order' =
     (let safeSort = first_of (default_arg sort' (JStr ''posted_date''));
          safeOrder = first_of (default_arg order' (JStr ''desc''))
      in \<lparr> sortField = (case safeSort of
                          JStr f \<Rightarrow> if f \<in> set validSortFields then f else ''posted_date''
                        | _ \<Rightarrow> ''posted_date''),
           sortOrder = (case safeOrder of
                          JStr d \<Rightarrow> if toLowerCase d \<in> set validOrders then toUpperCase d
                                     else ''DESC''
                        | _ \<Rightarrow> ''DESC'') \<rparr>)"

definition orderClause :: "order_clause \<Rightarrow> string" where
  "orderClause oc = ''ORDER BY '' @ sortField oc @ '' '' @ sortOrder oc"

section \<open>The two stores\<close>

text \<open>
  The tables of \<open>schema.sql\<close>. A stored row maps column names to column values; a column the
  table does not have reads as \<open>CNull\<close> and is rejected by every statement that names it.
  Timestamps are milliseconds since the epoch. The state of the storage engine is the rows
  of both tables and the number of statements it has received; a statement that fails
  leaves the rows as they were.
\<close>

datatype colval =
    CNull
  | CText string
  | CBool bool
  | CInt int
  | CTime int
  | CArr "string list"

type_synonym row = "string \<Rightarrow> colval"

datatype table = opportunities_work | opportunities_event

datatype coltype =
    TUuid
  | TVarchar nat
  | TText
  | TTextArr
  | TTimestamptz
  | TBoolean
  | TInteger

definition work_columns :: "(string \<times> coltype) list" where
  "work_columns =
     [(''id'', TUuid), (''work_type'', TVarchar 20), (''title'', TVarchar 500),
      (''apply_url'', TText), (''city'', TVarchar 100), (''country'', TVarchar 100),
      (''work_style'', TVarchar 10), (''organization'', TVarchar 200),
      (''company'', TVarchar 200), (''image_url'', TText), (''stipend'', TVarchar 100),
      (''duration'', TVarchar 50), (''salary'', TVarchar 100), (''experience'', TVarchar 100),
      (''skills'', TTextArr), (''who_can_apply'', TVarchar 255), (''deadline'', TTimestamptz),
      (''tags'', TTextArr), (''source'', TVarchar 100), (''external_id'', TVarchar 255),
      (''status'', TVarchar 20), (''is_verified'', TBoolean), (''is_featured'', TBoolean),
      (''view_count'', TInteger), (''posted_date'', TTimestamptz),
      (''last_seen_date'', TTimestamptz), (''created_at'', TTimestamptz),
      (''updated_at'', TTimestamptz)]"

definition event_columns :: "(string \<times> coltype) list" where
  "event_columns =
     [(''id'', TUuid), (''event_type'', TVarchar 20), (''title'', TVarchar 500),
      (''apply_url'', TText), (''city'', TVarchar 100), (''country'', TVarchar 100),
      (''organization'', TVarchar 200), (''image_url'', TText), (''team_size'', TVarchar 50),
      (''fees'', TVarchar 20), (''perks'', TText), (''event_date'', TTimestamptz),
      (''learning_type'', TVarchar 50), (''deadline'', TTimestamptz), (''tags'', TTextArr),
      (''domain'', TTextArr), (''source'', TVarchar 100), (''external_id'', TVarchar 255),
      (''status'', TVarchar 20), (''is_verified'', TBoolean), (''is_featured'', TBoolean),
      (''view_count'', TInteger), (''posted_date'', TTimestamptz),
      (''last_seen_date'', TTimestamptz), (''created_at'', TTimestamptz),
      (''updated_at'', TTimestamptz)]"

fun columns :: "table \<Rightarrow> (string \<times> coltype) list" where
  "columns opportunities_work = work_columns"
| "columns opportunities_event = event_columns"

text \<open>The arguments each model class passes to the base constructor.\<close>

fun typeField :: "table \<Rightarrow> string" where
  "typeField opportunities_work = ''work_type''"
| "typeField opportunities_event = ''event_type''"

fun tableName :: "table \<Rightarrow> string" where
  "tableName opportunities_work = ''opportunities_work''"
| "tableName opportunities_event = ''opportunities_event''"

record db =
  work_rows :: "row list"
  event_rows :: "row list"
  queries :: nat

fun rows_of :: "table \<Rightarrow> db \<Rightarrow> row list" where
  "rows_of opportunities_work d = work_rows d"
| "rows_of opportunities_event d = event_rows d"

fun set_rows :: "table \<Rightarrow> row list \<Rightarrow> db \<Rightarrow> db" where
  "set_rows opportunities_work rs d = d\<lparr> work_rows := rs \<rparr>"
| "set_rows opportunities_event rs d = d\<lparr> event_rows := rs \<rparr>"

text \<open>One call of \<open>query\<close>: the engine has received one more statement.\<close>

definition issued :: "db \<Rightarrow> db" where
  "issued d = d\<lparr> queries := queries d + 1 \<rparr>"

subsection \<open>The engine's own functions\<close>

text \<open>
  What the storage engine computes by itself is a parameter of the model: how it reads a
  boolean, a timestamp, an array and an integer from text, its full-text match
  (\<open>to_tsvector('english', doc) @@ plainto_tsquery('english', q)\<close>), the order of its
  collation on text, the text in which a \<open>Date\<close> is sent to it, and the values of
  \<open>NOW()\<close> and \<open>gen_random_uuid()\<close> in its n-th statement. Every theorem holds for
  every engine.
\<close>

record engine =
  bool_in :: "string \<Rightarrow> bool option"
  timestamptz_in :: "string \<Rightarrow> int option"
  array_in :: "string \<Rightarrow> string list option"
  int4_in :: "string \<Rightarrow> int option"
  ts_match :: "string \<Rightarrow> string \<Rightarrow> bool"
  text_le :: "string \<Rightarrow> string \<Rightarrow> bool"
  date_text :: "int \<Rightarrow> string"
  now_at :: "nat \<Rightarrow> int"
  uuid_at :: "nat \<Rightarrow> string"

subsection \<open>Binding a parameter to a column\<close>

text \<open>
  The driver sends a bound value as text, or as NULL for null and undefined. An array is
  sent as an array literal with each element quoted.
\<close>

definition escapeElement :: "string \<Rightarrow> string" where
  "escapeElement s =
     [CHR 0x22]
     @ concat (map (\<lambda>c. if c = CHR 0x5C then [CHR 0x5C, CHR 0x5C]
                          else if c = CHR 0x22 then [CHR 0x5C, CHR 0x22]
                          else [c]) s)
     @ [CHR 0x22]"

definition arrayString :: "string list \<Rightarrow> string" where
  "arrayString xs = ''{'' @ join '','' (map escapeElement xs) @ ''}''"

fun pg_text :: "jsval \<Rightarrow> string option" where
  "pg_text JUndefined = None"
| "pg_text JNull = None"
| "pg_text (JBool b) = Some (if b then ''true'' else ''false'')"
| "pg_text (JNum n) = Some (show_int n)"
| "pg_text (JStr s) = Some s"
| "pg_text (JArr xs) = Some (arrayString xs)"

definition is_hex :: "char \<Rightarrow> bool" where
  "is_hex c = is_digit 16 c"

text \<open>
  \<open>isValidUUID\<close> of \<open>utils/validators.js\<close>: the groups 8-4-4-4-12 of hexadecimal digits,
  in either case.
\<close>

definition isValidUUID :: "string \<Rightarrow> bool" where
  "isValidUUID s =
     (length s = 36
      \<and> list_all is_hex (take 8 s) \<and> s ! 8 = CHR ''-''
      \<and> list_all is_hex (take 4 (drop 9 s)) \<and> s ! 13 = CHR ''-''
      \<and> list_all is_hex (take 4 (drop 14 s)) \<and> s ! 18 = CHR ''-''
      \<and> list_all is_hex (take 4 (drop 19 s)) \<and> s ! 23 = CHR ''-''
      \<and> list_all is_hex (drop 24 s))"

text \<open>
  The engine reads an identifier in the form the controllers validate and stores it in
  lower case; every other spelling is rejected as malformed.
\<close>

definition uuid_in :: "string \<Rightarrow> string option" where
  "uuid_in s = (if isValidUUID s then Some (toLowerCase s) else None)"

text \<open>
  A text longer than a \<open>VARCHAR(n)\<close> column is an error unless the excess is spaces only,
  which are cut off. A boolean and an array of strings arrive as they were bound.
\<close>

definition cast :: "engine \<Rightarrow> coltype \<Rightarrow> jsval \<Rightarrow> error + colval" where
  "cast eng ty v =
     (case pg_text v of
        None \<Rightarrow> Inr CNull
      | Some t \<Rightarrow>
          (case ty of
             TText \<Rightarrow> Inr (CText t)
           | TVarchar n \<Rightarrow>
               if length t \<le> n then Inr (CText t)
               else if list_all (\<lambda>c. c = CHR '' '') (drop n t) then Inr (CText (take n t))
               else Inl (PgError ''22001'')
           | TBoolean \<Rightarrow>
               (case v of
                  JBool b \<Rightarrow> Inr (CBool b)
                | _ \<Rightarrow> (case bool_in eng t of
                          None \<Rightarrow> Inl (PgError ''22P02'')
                        | Some b \<Rightarrow> Inr (CBool b)))
           | TTimestamptz \<Rightarrow>
               (case timestamptz_in eng t of
                  None \<Rightarrow> Inl (PgError ''22007'')
                | Some ms \<Rightarrow> Inr (CTime ms))
           | TTextArr \<Rightarrow>
               (case v of
                  JArr xs \<Rightarrow> Inr (CArr xs)
                | _ \<Rightarrow> (case array_in eng t of
                          None \<Rightarrow> Inl (PgError ''22P02'')
                        | Some xs \<Rightarrow> Inr (CArr xs)))
           | TUuid \<Rightarrow>
               (case uuid_in t of
                  None \<Rightarrow> Inl (PgError ''22P02'')
                | Some u \<Rightarrow> Inr (CText u))
           | TInteger \<Rightarrow>
               (case int4_in eng t of
                  None \<Rightarrow> Inl (PgError ''22P02'')
                | Some i \<Rightarrow> Inr (CInt i))))"

text \<open>
  The parameters of a statement bound to the columns it assigns: a column the table does
  not have fails the statement when it is parsed, before any value is read.
\<close>

fun cast_all :: "engine \<Rightarrow> table \<Rightarrow> (string \<times> jsval) list \<Rightarrow> error + (string \<times> colval) list" where
  "cast_all eng tbl [] = Inr []"
| "cast_all eng tbl ((c, v) # rest) =
     (case map_of (columns tbl) c of
        None \<Rightarrow> Inl (PgError ''42703'')
      | Some ty \<Rightarrow>
          (case cast eng ty v of
             Inl e \<Rightarrow> Inl e
           | Inr x \<Rightarrow>
               (case cast_all eng tbl rest of
                  Inl e \<Rightarrow> Inl e
                | Inr xs \<Rightarrow> Inr ((c, x) # xs))))"

definition bind_columns :: "engine \<Rightarrow> table \<Rightarrow> (string \<times> jsval) list \<Rightarrow> error + (string \<times> colval) list" where
  "bind_columns eng tbl bound =
     (if list_all (\<lambda>(c, v). map_of (columns tbl) c \<noteq> None) bound
      then cast_all eng tbl bound
      else Inl (PgError ''42703''))"

fun assign :: "(string \<times> colval) list \<Rightarrow> row \<Rightarrow> row" where
  "assign [] r = r"
| "assign ((c, x) # rest) r = assign rest (r(c := x))"

subsection \<open>Constraints\<close>

text \<open>\<open>col ~* '^https?://'\<close>.\<close>

definition starts_http :: "string \<Rightarrow> bool" where
  "starts_http s = (take 7 (toLowerCase s) = ''http://'' \<or> take 8 (toLowerCase s) = ''https://'')"

text \<open>\<open>TRIM\<close> of the engine removes spaces at both ends.\<close>

definition sql_trim :: "string \<Rightarrow> string" where
  "sql_trim s = rev (dropWhile (\<lambda>c. c = CHR '' '') (rev (dropWhile (\<lambda>c. c = CHR '' '') s)))"

text \<open>A \<open>CHECK\<close> passes on NULL.\<close>

definition check_in :: "colval \<Rightarrow> string list \<Rightarrow> bool" where
  "check_in v xs = (case v of CNull \<Rightarrow> True | CText s \<Rightarrow> s \<in> set xs | _ \<Rightarrow> False)"

definition check_title :: "colval \<Rightarrow> bool" where
  "check_title v = (case v of CNull \<Rightarrow> True | CText s \<Rightarrow> sql_trim s \<noteq> [] | _ \<Rightarrow> False)"

definition check_url :: "colval \<Rightarrow> bool" where
  "check_url v = (case v of CNull \<Rightarrow> True | CText s \<Rightarrow> starts_http s | _ \<Rightarrow> False)"

definition check_count :: "colval \<Rightarrow> bool" where
  "check_count v = (case v of CNull \<Rightarrow> True | CInt i \<Rightarrow> 0 \<le> i | _ \<Rightarrow> False)"

fun not_null_columns :: "table \<Rightarrow> string list" where
  "not_null_columns tbl =
     [''id'', typeField tbl, ''title'', ''apply_url'', ''posted_date'', ''last_seen_date'',
      ''created_at'', ''updated_at'']"

fun checks :: "table \<Rightarrow> row \<Rightarrow> bool" where
  "checks opportunities_work r =
     (check_in (r ''work_type'') [''internship'', ''job'']
      \<and> check_title (r ''title'')
      \<and> check_url (r ''apply_url'')
      \<and> check_in (r ''work_style'') [''remote'', ''hybrid'', ''onsite'']
      \<and> check_url (r ''image_url'')
      \<and> check_in (r ''status'') [''active'', ''expired'']
      \<and> check_count (r ''view_count''))"
| "checks opportunities_event r =
     (check_in (r ''event_type'') [''hackathon'', ''learning'', ''scholarship'']
      \<and> check_title (r ''title'')
      \<and> check_url (r ''apply_url'')
      \<and> check_url (r ''image_url'')
      \<and> check_in (r ''fees'') [''paid'', ''unpaid'']
      \<and> check_in (r ''learning_type'') [''workshop'', ''course'', ''bootcamp'', ''mentorship'']
      \<and> check_in (r ''status'') [''active'', ''expired'', ''archived'']
      \<and> check_count (r ''view_count''))"

definition constraint_error :: "table \<Rightarrow> row \<Rightarrow> error option" where
  "constraint_error tbl r =
     (if list_ex (\<lambda>c. r c = CNull) (not_null_columns tbl) then Some (PgError ''23502'')
      else if \<not> checks tbl r then Some (PgError ''23514'')
      else None)"

section \<open>Upsert Engine: WorkOpportunityModel.create and EventOpportunityModel.create\<close>

text \<open>The column defaults of an inserted row; \<open>now\<close> is \<open>NOW()\<close>, \<open>uuid\<close> is
  \<open>gen_random_uuid()\<close>.\<close>

definition default_row :: "int \<Rightarrow> string \<Rightarrow> row" where
  "default_row now uuid =
     (\<lambda>c. CNull)
       (''id'' := CText uuid,
        ''source'' := CText ''manual'',
        ''status'' := CText ''active'',
        ''is_verified'' := CBool False,
        ''is_featured'' := CBool False,
        ''view_count'' := CInt 0,
        ''posted_date'' := CTime now,
        ''last_seen_date'' := CTime now,
        ''created_at'' := CTime now,
        ''updated_at'' := CTime now)"

text \<open>The arbiter of \<open>ON CONFLICT (work_type, apply_url)\<close>, respectively
  \<open>(event_type, apply_url)\<close>.\<close>

definition same_key :: "table \<Rightarrow> row \<Rightarrow> row \<Rightarrow> bool" where
  "same_key tbl p r =
     (r (typeField tbl) = p (typeField tbl) \<and> r ''apply_url'' = p ''apply_url'')"

text \<open>The other unique constraints: the primary key and the external identifier (NULLs
  never collide).\<close>

definition unique_violation :: "row \<Rightarrow> row list \<Rightarrow> bool" where
  "unique_violation p rs =
     (list_ex (\<lambda>r. r ''id'' = p ''id'') rs
      \<or> (p ''external_id'' \<noteq> CNull \<and> list_ex (\<lambda>r. r ''external_id'' = p ''external_id'') rs))"

fun replace_first :: "(row \<Rightarrow> bool) \<Rightarrow> row \<Rightarrow> row list \<Rightarrow> row list" where
  "replace_first P new [] = []"
| "replace_first P new (r # rs) = (if P r then new # rs else r # replace_first P new rs)"

text \<open>\<open>result.rows[0]\<close> of the upsert: the stored row and the tag
  \<open>CASE WHEN xmax = 0 THEN 'created' ELSE 'updated' END\<close>.\<close>

record upserted =
  entity :: row
  action :: string

text \<open>
  \<open>INSERT ... ON CONFLICT ... DO UPDATE SET ... RETURNING *\<close> as one statement. The proposed
  row is bound and checked first; a stored row with the same key takes the \<open>DO UPDATE\<close>
  branch, where \<open>on_conflict now old excluded\<close> is the \<open>SET\<close> list; otherwise the row is
  inserted unless another unique constraint refuses it.
\<close>

definition exec_upsert ::
  "engine \<Rightarrow> table \<Rightarrow> (string \<times> jsval) list \<Rightarrow> (int \<Rightarrow> row \<Rightarrow> row \<Rightarrow> row) \<Rightarrow> db
     \<Rightarrow> (error + upserted) \<times> db" where
  "exec_upsert eng tbl bound on_conflict d =
     (let n = queries d; d1 = issued d; now = now_at eng n
      in case bind_columns eng tbl bound of
           Inl e \<Rightarrow> (Inl e, d1)
         | Inr cs \<Rightarrow>
             (let proposed = assign cs (default_row now (uuid_at eng n))
              in case constraint_error tbl proposed of
                   Some e \<Rightarrow> (Inl e, d1)
                 | None \<Rightarrow>
                     (case find (same_key tbl proposed) (rows_of tbl d) of
                        Some old \<Rightarrow>
                          (let new = on_conflict now old proposed
                           in case constraint_error tbl new of
                                Some e \<Rightarrow> (Inl e, d1)
                              | None \<Rightarrow>
                                  (Inr \<lparr> entity = new, action = ''updated'' \<rparr>,
                                   set_rows tbl
                                     (replace_first (same_key tbl proposed) new (rows_of tbl d)) d1))
                      | None \<Rightarrow>
                          if unique_violation proposed (rows_of tbl d)
                          then (Inl (PgError ''23505''), d1)
                          else (Inr \<lparr> entity = proposed, action = ''created'' \<rparr>,
                                set_rows tbl (rows_of tbl d @ [proposed]) d1))))"

text \<open>The \<open>DO UPDATE SET\<close> list of the work store.\<close>

definition work_on_conflict :: "int \<Rightarrow> row \<Rightarrow> row \<Rightarrow> row" where
  "work_on_conflict now old excluded =
     old(''last_seen_date'' := CTime now,
         ''status'' := (if old ''status'' = CText ''expired'' then CText ''active''
                        else old ''status''),
         ''title'' := excluded ''title'',
         ''city'' := excluded ''city'',
         ''country'' := excluded ''country'',
         ''work_style'' := excluded ''work_style'',
         ''organization'' := excluded ''organization'',
         ''company'' := excluded ''company'',
         ''deadline'' := excluded ''deadline'',
         ''tags'' := excluded ''tags'',
         ''stipend'' := excluded ''stipend'',
         ''duration'' := excluded ''duration'',
         ''salary'' := excluded ''salary'',
         ''experience'' := excluded ''experience'',
         ''skills'' := excluded ''skills'',
         ''updated_at'' := CTime now)"

definition WorkOpportunityModel_create ::
  "engine \<Rightarrow> jsobj \<Rightarrow> jsval \<Rightarrow> db \<Rightarrow> (error + upserted) \<times> db" where
  "WorkOpportunityModel_create eng data workType d =
     exec_upsert eng opportunities_work
       [(''work_type'', workType),
        (''title'', field data ''title''),
        (''apply_url'', field data ''apply_url''),
        (''city'', js_or (field data ''city'') JNull),
        (''country'', js_or (field data ''country'') JNull),
        (''work_style'', js_or (field data ''work_style'') JNull),
        (''organization'', js_or (field data ''organization'') JNull),
        (''company'', js_or (js_or (field data ''company'') (field data ''organization'')) JNull),
        (''image_url'', js_or (field data ''image_url'') JNull),
        (''stipend'', js_or (field data ''stipend'') JNull),
        (''duration'', js_or (field data ''duration'') JNull),
        (''salary'', js_or (field data ''salary'') JNull),
        (''experience'', js_or (field data ''experience'') JNull),
        (''skills'', js_or (field data ''skills'') JNull),
        (''who_can_apply'', js_or (field data ''who_can_apply'') JNull),
        (''deadline'', js_or (field data ''deadline'') JNull),
        (''tags'', js_or (field data ''tags'') JNull),
        (''source'', js_or (field data ''source'') (JStr ''manual'')),
        (''external_id'', js_or (field data ''external_id'') JNull),
        (''is_verified'', js_or (field data ''is_verified'') (JBool False)),
        (''is_featured'', js_or (field data ''is_featured'') (JBool False))]
       work_on_conflict d"

text \<open>The \<open>DO UPDATE SET\<close> list of the event store.\<close>

definition event_on_conflict :: "int \<Rightarrow> row \<Rightarrow> row \<Rightarrow> row" where
  "event_on_conflict now old excluded =
     old(''last_seen_date'' := CTime now,
         ''status'' := (if old ''status'' = CText ''expired'' \<or> old ''status'' = CText ''archived''
                        then CText ''active'' else old ''status''),
         ''title'' := excluded ''title'',
         ''city'' := excluded ''city'',
         ''country'' := excluded ''country'',
         ''organization'' := excluded ''organization'',
         ''deadline'' := excluded ''deadline'',
         ''event_date'' := excluded ''event_date'',
         ''tags'' := excluded ''tags'',
         ''domain'' := excluded ''domain'',
         ''team_size'' := excluded ''team_size'',
         ''fees'' := excluded ''fees'',
         ''perks'' := excluded ''perks'',
         ''updated_at'' := CTime now)"

definition EventOpportunityModel_create ::
  "engine \<Rightarrow> jsobj \<Rightarrow> jsval \<Rightarrow> db \<Rightarrow> (error + upserted) \<times> db" where
  "EventOpportunityModel_create eng data eventType d =
     exec_upsert eng opportunities_event
       [(''event_type'', eventType),
        (''title'', field data ''title''),
        (''apply_url'', field data ''apply_url''),
        (''city'', js_or (field data ''city'') JNull),
        (''country'', js_or (field data ''country'') JNull),
        (''organization'', js_or (field data ''organization'') JNull),
        (''image_url'', js_or (field data ''image_url'') JNull),
        (''team_size'', js_or (field data ''team_size'') JNull),
        (''fees'', js_or (field data ''fees'') JNull),
        (''perks'', js_or (field data ''perks'') JNull),
        (''event_date'', js_or (field data ''event_date'') JNull),
        (''learning_type'', js_or (field data ''learning_type'') JNull),
        (''deadline'', js_or (field data ''deadline'') JNull),
        (''tags'', js_or (field data ''tags'') JNull),
        (''domain'', js_or (field data ''domain'') JNull),
        (''source'', js_or (field data ''source'') (JStr ''manual'')),
        (''external_id'', js_or (field data ''external_id'') JNull),
        (''is_verified'', js_or (field data ''is_verified'') (JBool False)),
        (''is_featured'', js_or (field data ''is_featured'') (JBool False))]
       event_on_conflict d"

text \<open>The \<open>create\<close> of the model that owns the table.\<close>

fun create :: "table \<Rightarrow> engine \<Rightarrow> jsobj \<Rightarrow> jsval \<Rightarrow> db \<Rightarrow> (error + upserted) \<times> db" where
  "create opportunities_work = WorkOpportunityModel_create"
| "create opportunities_event = EventOpportunityModel_create"

section \<open>Shared operations: BaseOpportunityModel\<close>

text \<open>\<open>WHERE id = $1\<close>: the identifier is read as a uuid.\<close>

definition has_id :: "string \<Rightarrow> row \<Rightarrow> bool" where
  "has_id u r = (r ''id'' = CText u)"

text \<open>\<open>findById\<close>: \<open>result.rows[0] || null\<close>.\<close>

definition findById :: "table \<Rightarrow> string \<Rightarrow> db \<Rightarrow> (error + row option) \<times> db" where
  "findById tbl ident d =
     (case uuid_in ident of
        None \<Rightarrow> (Inl (PgError ''22P02''), issued d)
      | Some u \<Rightarrow> (Inr (find (has_id u) (rows_of tbl d)), issued d))"

text \<open>\<open>view_count + 1\<close> on a 32-bit integer column; NULL stays NULL.\<close>

definition plus_one :: "colval \<Rightarrow> error + colval" where
  "plus_one v =
     (case v of
        CInt i \<Rightarrow> if i + 1 > 2147483647 then Inl (PgError ''22003'') else Inr (CInt (i + 1))
      | _ \<Rightarrow> Inr CNull)"

text \<open>\<open>incrementViewCount\<close> returns \<open>result.rows[0]\<close>, the new counter, or undefined when no
  row has the identifier.\<close>

definition incrementViewCount ::
  "engine \<Rightarrow> table \<Rightarrow> string \<Rightarrow> db \<Rightarrow> (error + colval option) \<times> db" where
  "incrementViewCount eng tbl ident d =
     (let n = queries d; d1 = issued d
      in case uuid_in ident of
           None \<Rightarrow> (Inl (PgError ''22P02''), d1)
         | Some u \<Rightarrow>
             (case find (has_id u) (rows_of tbl d) of
                None \<Rightarrow> (Inr None, d1)
              | Some old \<Rightarrow>
                  (case plus_one (old ''view_count'') of
                     Inl e \<Rightarrow> (Inl e, d1)
                   | Inr c \<Rightarrow>
                       (let new = old(''view_count'' := c, ''updated_at'' := CTime (now_at eng n))
                        in case constraint_error tbl new of
                             Some e \<Rightarrow> (Inl e, d1)
                           | None \<Rightarrow>
                               (Inr (Some c),
                                set_rows tbl (replace_first (has_id u) new (rows_of tbl d)) d1)))))"

definition allowedFields :: "string list" where
  "allowedFields =
     [''title'', ''city'', ''country'', ''work_style'', ''organization'',
      ''company'', ''image_url'', ''deadline'', ''tags'', ''stipend'',
      ''duration'', ''salary'', ''experience'', ''skills'', ''who_can_apply'',
      ''team_size'', ''fees'', ''perks'', ''event_date'', ''learning_type'',
      ''domain'', ''is_verified'', ''is_featured'', ''status'']"

text \<open>
  \<open>update(id, updates)\<close>. The body is the list of its properties in the order of
  \<open>Object.keys\<close>, each name once. The properties kept are those on the allow-list whose
  value is not undefined; with none kept the method throws before any statement is sent.
\<close>

definition setClause :: "(string \<times> jsval) list \<Rightarrow> (string \<times> jsval) list" where
  "setClause updates = filter (\<lambda>(f, v). f \<in> set allowedFields \<and> v \<noteq> JUndefined) updates"

definition update :: "engine \<Rightarrow> table \<Rightarrow> string \<Rightarrow> (string \<times> jsval) list \<Rightarrow> db \<Rightarrow> (error + row) \<times> db" where
  "update eng tbl ident updates d =
     (if setClause updates = [] then (Inl (Error ''No valid fields to update''), d)
      else
        (let n = queries d; d1 = issued d
         in case bind_columns eng tbl (setClause updates) of
              Inl e \<Rightarrow> (Inl e, d1)
            | Inr cs \<Rightarrow>
                (case uuid_in ident of
                   None \<Rightarrow> (Inl (PgError ''22P02''), d1)
                 | Some u \<Rightarrow>
                     (case find (has_id u) (rows_of tbl d) of
                        None \<Rightarrow> (Inl (Error ''Opportunity not found''), d1)
                      | Some old \<Rightarrow>
                          (let new = (assign cs old)(''updated_at'' := CTime (now_at eng n))
                           in case constraint_error tbl new of
                                Some e \<Rightarrow> (Inl e, d1)
                              | None \<Rightarrow>
                                  (Inr new,
                                   set_rows tbl (replace_first (has_id u) new (rows_of tbl d)) d1))))))"

text \<open>
  \<open>delete(id, hardDelete)\<close>: the row is removed, or kept with the status \<open>archived\<close>. The
  result is the identifier of the row.
\<close>

definition delete :: "engine \<Rightarrow> table \<Rightarrow> string \<Rightarrow> bool \<Rightarrow> db \<Rightarrow> (error + colval) \<times> db" where
  "delete eng tbl ident hardDelete d =
     (let n = queries d; d1 = issued d
      in case uuid_in ident of
           None \<Rightarrow> (Inl (PgError ''22P02''), d1)
         | Some u \<Rightarrow>
             (case find (has_id u) (rows_of tbl d) of
                None \<Rightarrow> (Inl (Error ''Opportunity not found''), d1)
              | Some old \<Rightarrow>
                  if hardDelete
                  then (Inr (old ''id''),
                        set_rows tbl (filter (\<lambda>r. \<not> has_id u r) (rows_of tbl d)) d1)
                  else
                    (let new = old(''status'' := CText ''archived'',
                                   ''updated_at'' := CTime (now_at eng n))
                     in case constraint_error tbl new of
                          Some e \<Rightarrow> (Inl e, d1)
                        | None \<Rightarrow>
                            (Inr (old ''id''),
                             set_rows tbl (replace_first (has_id u) new (rows_of tbl d)) d1))))"

section \<open>Evaluating a compiled filter\<close>

text \<open>
  What the engine does with the predicates of the Filter Compiler. The columns a predicate
  reads must exist in the table; every parameter from 1 to the number of bound values must
  be referred to, and no other; a predicate that evaluates to NULL does not select the row.
\<close>

fun cond_columns :: "string \<Rightarrow> cond \<Rightarrow> string list" where
  "cond_columns tf (TypeEq i) = [tf]"
| "cond_columns tf (StatusEq i) = [''status'']"
| "cond_columns tf (CityLike i) = [''city'']"
| "cond_columns tf (CountryLike i) = [''country'']"
| "cond_columns tf (WorkStyleEq i) = [''work_style'']"
| "cond_columns tf IsFeatured = [''is_featured'']"
| "cond_columns tf IsVerified = [''is_verified'']"
| "cond_columns tf (Search i) = [''title'', ''organization'', ''company'']"
| "cond_columns tf (TagsOverlap i) = [''tags'']"
| "cond_columns tf (SkillsOverlap i) = [''skills'']"
| "cond_columns tf (DomainOverlap i) = [''domain'']"
| "cond_columns tf (FeesEq i) = [''fees'']"
| "cond_columns tf (DeadlineBetween i j) = [''deadline'']"

fun cond_params :: "cond \<Rightarrow> nat list" where
  "cond_params (TypeEq i) = [i]"
| "cond_params (StatusEq i) = [i]"
| "cond_params (CityLike i) = [i]"
| "cond_params (CountryLike i) = [i]"
| "cond_params (WorkStyleEq i) = [i]"
| "cond_params IsFeatured = []"
| "cond_params IsVerified = []"
| "cond_params (Search i) = [i]"
| "cond_params (TagsOverlap i) = [i]"
| "cond_params (SkillsOverlap i) = [i]"
| "cond_params (DomainOverlap i) = [i]"
| "cond_params (FeesEq i) = [i]"
| "cond_params (DeadlineBetween i j) = [i, j]"

definition has_column :: "table \<Rightarrow> string \<Rightarrow> bool" where
  "has_column tbl c = (map_of (columns tbl) c \<noteq> None)"

text \<open>The statement refers to the parameters \<open>used\<close> and is sent with \<open>n\<close> values.\<close>

definition params_match :: "nat list \<Rightarrow> nat \<Rightarrow> bool" where
  "params_match used n =
     (list_all (\<lambda>i. 1 \<le> i \<and> i \<le> n) used \<and> list_all (\<lambda>i. i \<in> set used) [1..<Suc n])"

text \<open>The text the driver sends for a bound value; NULL for null and undefined.\<close>

fun param_text :: "engine \<Rightarrow> pval \<Rightarrow> string option" where
  "param_text eng (PVal v) = pg_text v"
| "param_text eng (PDate t) = Some (date_text eng t)"

text \<open>A predicate with its parameters read at the type of the column it compares.\<close>

datatype bcond =
    BNever
  | BEq string string
  | BLike string string
  | BFlag string
  | BSearch string
  | BOverlap string "string list"
  | BBetween string int int

definition bind_text :: "engine \<Rightarrow> pval list \<Rightarrow> nat \<Rightarrow> (string \<Rightarrow> bcond) \<Rightarrow> error + bcond" where
  "bind_text eng vs i mk =
     (case param_text eng (vs ! (i - 1)) of None \<Rightarrow> Inr BNever | Some t \<Rightarrow> Inr (mk t))"

definition bind_array :: "engine \<Rightarrow> pval list \<Rightarrow> nat \<Rightarrow> string \<Rightarrow> error + bcond" where
  "bind_array eng vs i col =
     (case vs ! (i - 1) of
        PVal (JArr ys) \<Rightarrow> Inr (BOverlap col ys)
      | p \<Rightarrow> (case param_text eng p of
                None \<Rightarrow> Inr BNever
              | Some t \<Rightarrow> (case array_in eng t of
                            None \<Rightarrow> Inl (PgError ''22P02'')
                          | Some ys \<Rightarrow> Inr (BOverlap col ys))))"

definition bind_time :: "engine \<Rightarrow> pval \<Rightarrow> error + int option" where
  "bind_time eng p =
     (case p of
        PDate t \<Rightarrow> Inr (Some t)
      | PVal v \<Rightarrow> (case pg_text v of
                     None \<Rightarrow> Inr None
                   | Some t \<Rightarrow> (case timestamptz_in eng t of
                                 None \<Rightarrow> Inl (PgError ''22007'')
                               | Some ms \<Rightarrow> Inr (Some ms))))"

text \<open>Reading the parameters of one predicate; the indices are in range when
  \<open>params_match\<close> holds.\<close>

fun bind_cond :: "engine \<Rightarrow> string \<Rightarrow> pval list \<Rightarrow> cond \<Rightarrow> error + bcond" where
  "bind_cond eng tf vs (TypeEq i) = bind_text eng vs i (BEq tf)"
| "bind_cond eng tf vs (StatusEq i) = bind_text eng vs i (BEq ''status'')"
| "bind_cond eng tf vs (CityLike i) = bind_text eng vs i (BLike ''city'')"
| "bind_cond eng tf vs (CountryLike i) = bind_text eng vs i (BLike ''country'')"
| "bind_cond eng tf vs (WorkStyleEq i) = bind_text eng vs i (BEq ''work_style'')"
| "bind_cond eng tf vs IsFeatured = Inr (BFlag ''is_featured'')"
| "bind_cond eng tf vs IsVerified = Inr (BFlag ''is_verified'')"
| "bind_cond eng tf vs (Search i) = bind_text eng vs i BSearch"
| "bind_cond eng tf vs (TagsOverlap i) = bind_array eng vs i ''tags''"
| "bind_cond eng tf vs (SkillsOverlap i) = bind_array eng vs i ''skills''"
| "bind_cond eng tf vs (DomainOverlap i) = bind_array eng vs i ''domain''"
| "bind_cond eng tf vs (FeesEq i) = bind_text eng vs i (BEq ''fees'')"
| "bind_cond eng tf vs (DeadlineBetween i j) =
     (case bind_time eng (vs ! (i - 1)) of
        Inl e \<Rightarrow> Inl e
      | Inr a \<Rightarrow>
          (case bind_time eng (vs ! (j - 1)) of
             Inl e \<Rightarrow> Inl e
           | Inr b \<Rightarrow>
               (case (a, b) of
                  (Some lo, Some hi) \<Rightarrow> Inr (BBetween ''deadline'' lo hi)
                | _ \<Rightarrow> Inr BNever)))"

fun bind_conds :: "engine \<Rightarrow> string \<Rightarrow> pval list \<Rightarrow> cond list \<Rightarrow> error + bcond list" where
  "bind_conds eng tf vs [] = Inr []"
| "bind_conds eng tf vs (c # cs) =
     (case bind_cond eng tf vs c of
        Inl e \<Rightarrow> Inl e
      | Inr b \<Rightarrow> (case bind_conds eng tf vs cs of Inl e \<Rightarrow> Inl e | Inr bs \<Rightarrow> Inr (b # bs)))"

text \<open>
  \<open>LIKE\<close>: \<open>%\<close> matches any text, \<open>_\<close> one character, a backslash takes the next
  character literally. A pattern that ends in a single backslash is an error in the engine;
  the patterns of the Filter Compiler end in \<open>%\<close>, and the model answers no match there.
\<close>

fun like :: "string \<Rightarrow> string \<Rightarrow> bool" where
  "like [] s = (s = [])"
| "like (p # ps) [] = (p = CHR ''%'' \<and> like ps [])"
| "like (p # ps) (c # cs) =
     (if p = CHR ''%'' then like ps (c # cs) \<or> like (p # ps) cs
      else if p = CHR ''_'' then like ps cs
      else if p = CHR 0x5C
           then (case ps of [] \<Rightarrow> False | q # qs \<Rightarrow> q = c \<and> like qs cs)
           else p = c \<and> like ps cs)"

definition coalesce_text :: "colval \<Rightarrow> string" where
  "coalesce_text v = (case v of CText s \<Rightarrow> s | _ \<Rightarrow> [])"

fun holds :: "engine \<Rightarrow> row \<Rightarrow> bcond \<Rightarrow> bool" where
  "holds eng r BNever = False"
| "holds eng r (BEq col t) = (r col = CText t)"
| "holds eng r (BLike col pat) =
     (case r col of CText s \<Rightarrow> like (toLowerCase pat) (toLowerCase s) | _ \<Rightarrow> False)"
| "holds eng r (BFlag col) = (r col = CBool True)"
| "holds eng r (BSearch q) =
     (case r ''title'' of
        CText t \<Rightarrow>
          ts_match eng
            (t @ '' '' @ coalesce_text (r ''organization'') @ '' '' @ coalesce_text (r ''company'')) q
      | _ \<Rightarrow> False)"
| "holds eng r (BOverlap col ys) =
     (case r col of CArr xs \<Rightarrow> list_ex (\<lambda>x. x \<in> set ys) xs | _ \<Rightarrow> False)"
| "holds eng r (BBetween col lo hi) =
     (case r col of CTime t \<Rightarrow> lo \<le> t \<and> t \<le> hi | _ \<Rightarrow> False)"

text \<open>The rows a \<open>WHERE\<close> clause selects from a table, as a statement sent with \<open>n\<close>
  values of which the clause reads \<open>vs\<close>; \<open>extra\<close> are the parameters the rest of the
  statement refers to.\<close>

definition select_where ::
  "engine \<Rightarrow> table \<Rightarrow> cond list \<Rightarrow> pval list \<Rightarrow> nat list \<Rightarrow> nat \<Rightarrow> row list \<Rightarrow> error + row list" where
  "select_where eng tbl cs vs extra n rs =
     (if \<not> list_all (\<lambda>c. list_all (has_column tbl) (cond_columns (typeField tbl) c)) cs
      then Inl (PgError ''42703'')
      else if \<not> params_match (concat (map cond_params cs) @ extra) n
      then Inl (PgError ''08P01'')
      else (case bind_conds eng (typeField tbl) vs cs of
              Inl e \<Rightarrow> Inl e
            | Inr bs \<Rightarrow> Inr (filter (\<lambda>r. list_all (holds eng r) bs) rs)))"

subsection \<open>ORDER BY, LIMIT and OFFSET\<close>

text \<open>
  Ascending order of a column with NULL last; descending order is the converse. Rows that
  compare equal keep the order of the table, which is one of the orders the engine may
  return.
\<close>

fun col_le :: "engine \<Rightarrow> colval \<Rightarrow> colval \<Rightarrow> bool" where
  "col_le eng CNull CNull = True"
| "col_le eng CNull b = False"
| "col_le eng a CNull = True"
| "col_le eng (CTime x) (CTime y) = (x \<le> y)"
| "col_le eng (CInt x) (CInt y) = (x \<le> y)"
| "col_le eng (CText x) (CText y) = text_le eng x y"
| "col_le eng a b = True"

fun insert_by :: "(row \<Rightarrow> row \<Rightarrow> bool) \<Rightarrow> row \<Rightarrow> row list \<Rightarrow> row list" where
  "insert_by le x [] = [x]"
| "insert_by le x (y # ys) = (if le x y then x # y # ys else y # insert_by le x ys)"

definition sort_by :: "(row \<Rightarrow> row \<Rightarrow> bool) \<Rightarrow> row list \<Rightarrow> row list" where
  "sort_by le rs = foldr (insert_by le) rs []"

definition order_rows :: "engine \<Rightarrow> order_clause \<Rightarrow> row list \<Rightarrow> row list" where
  "order_rows eng oc rs =
     (if sortOrder oc = ''ASC''
      then sort_by (\<lambda>a b. col_le eng (a (sortField oc)) (b (sortField oc))) rs
      else sort_by (\<lambda>a b. col_le eng (b (sortField oc)) (a (sortField oc))) rs)"

section \<open>Pagination Engine: findAll\<close>

text \<open>A JavaScript number that may be infinite or NaN: the result of \<open>Math.ceil(a / b)\<close>
  on integers.\<close>

datatype jsnum = Num int | PosInfinity | NegInfinity | NaN

definition ceil_div :: "int \<Rightarrow> int \<Rightarrow> jsnum" where
  "ceil_div a b =
     (if b = 0 then (if a = 0 then NaN else if 0 < a then PosInfinity else NegInfinity)
      else Num (- ((- a) div b)))"

record pagination =
  total :: int
  page :: int
  limit :: int
  totalPages :: jsnum
  hasMore :: bool

record listing =
  data :: "row list"
  pagination :: pagination

text \<open>
  \<open>findAll(filters, page, limit)\<close> of both model classes (the two bodies are the same).
  The page and the limit are integers; \<open>now\<close> is the clock read by the Filter Compiler. The
  count statement is sent with the values of the filter, the data statement with the limit
  and the offset added as the next two parameters. A negative limit or offset is an error
  of the engine.
\<close>

definition findAll ::
  "engine \<Rightarrow> table \<Rightarrow> jsobj \<Rightarrow> int \<Rightarrow> int \<Rightarrow> int \<Rightarrow> db \<Rightarrow> (error + listing) \<times> db" where
  "findAll eng tbl filters p l now d =
     (let offset = (p - 1) * l
      in case buildWhereClause filters now of
           Inl e \<Rightarrow> (Inl e, d)
         | Inr w \<Rightarrow>
             (let oc = buildOrderClause (field filters ''sort'') (field filters ''order'');
                  d1 = issued d
              in case select_where eng tbl (conditions w) (vals w) [] (length (vals w))
                        (rows_of tbl d) of
                   Inl e \<Rightarrow> (Inl e, d1)
                 | Inr counted \<Rightarrow>
                     (let tot = int (length counted);
                          d2 = issued d1
                      in if \<not> has_column tbl (sortField oc) then (Inl (PgError ''42703''), d2)
                         else
                           (case select_where eng tbl (conditions w) (vals w)
                                   [paramIndex w, paramIndex w + 1] (length (vals w) + 2)
                                   (rows_of tbl d) of
                              Inl e \<Rightarrow> (Inl e, d2)
                            | Inr matching \<Rightarrow>
                                if l < 0 then (Inl (PgError ''2201W''), d2)
                                else if offset < 0 then (Inl (PgError ''2201X''), d2)
                                else
                                  (Inr \<lparr> data = take (nat l) (drop (nat offset)
                                                   (order_rows eng oc matching)),
                                         pagination =
                                           \<lparr> total = tot, page = p, limit = l,
                                             totalPages = ceil_div tot l,
                                             hasMore = (p * l < tot) \<rparr> \<rparr>,
                                   d2)))))"

section \<open>Batch upsert: bulkUpsert\<close>

text \<open>
  One entry of the result list per submitted object: the stored row's identifier, type,
  table, action and URL, or, when \<open>create\<close> threw, the submitted URL and type with the
  error. The status of a failed entry is \<open>failed\<close>.
\<close>

datatype bulk_entry =
    Stored colval colval string string colval
  | Failed jsval jsval string error

fun entry_status :: "bulk_entry \<Rightarrow> string" where
  "entry_status (Stored i t tb st u) = st"
| "entry_status (Failed u t tb e) = ''failed''"

fun entry_table :: "bulk_entry \<Rightarrow> string" where
  "entry_table (Stored i t tb st u) = tb"
| "entry_table (Failed u t tb e) = tb"

fun entry_type :: "bulk_entry \<Rightarrow> string option" where
  "entry_type (Stored i t tb st u) = (case t of CText x \<Rightarrow> Some x | _ \<Rightarrow> None)"
| "entry_type (Failed u t tb e) = (case t of JStr x \<Rightarrow> Some x | _ \<Rightarrow> None)"

text \<open>The loop of \<open>bulkUpsert\<close> in both model classes: every object is upserted in turn, a
  failure is recorded and the loop goes on.\<close>

fun bulkUpsert :: "engine \<Rightarrow> table \<Rightarrow> jsobj list \<Rightarrow> db \<Rightarrow> bulk_entry list \<times> db" where
  "bulkUpsert eng tbl [] d = ([], d)"
| "bulkUpsert eng tbl (opp # rest) d =
     (case create tbl eng opp (field opp (typeField tbl)) d of
        (Inr r, d1) \<Rightarrow>
          (case bulkUpsert eng tbl rest d1 of
             (rs, d2) \<Rightarrow>
               (Stored (entity r ''id'') (entity r (typeField tbl)) (tableName tbl) (action r)
                  (entity r ''apply_url'') # rs, d2))
      | (Inl e, d1) \<Rightarrow>
          (case bulkUpsert eng tbl rest d1 of
             (rs, d2) \<Rightarrow>
               (Failed (field opp ''apply_url'') (field opp (typeField tbl)) (tableName tbl) e
                  # rs, d2)))"

section \<open>Responses\<close>

text \<open>
  A handler ends with a response (a status code and a body) or with an exception, which
  \<open>asyncHandler\<close> passes on to the error middleware.
\<close>

record counts =
  created :: nat
  updated :: nat
  failed :: nat

record summary =
  submitted :: nat
  tally :: counts

datatype payload =
    NoBody
  | Failure string
  | Entity row string
  | Updated row
  | Listing "row list" pagination "(string \<times> jsval) list"
  | BatchReport summary "((string \<times> string) \<times> counts) list" "bulk_entry list option"

record response =
  statusCode :: nat
  body :: payload

section \<open>Polymorphic Resolver: opportunityController\<close>

text \<open>\<open>(opportunity.view_count || 0) + 1\<close> on the row that was read.\<close>

definition viewed :: "row \<Rightarrow> row" where
  "viewed r = r(''view_count'' := (case r ''view_count'' of CInt i \<Rightarrow> CInt (i + 1) | _ \<Rightarrow> CInt 1))"

text \<open>The tail of \<open>getById\<close> once a store has answered: the counter is incremented in that
  store and the row is returned with its category.\<close>

definition respond_found ::
  "engine \<Rightarrow> table \<Rightarrow> string \<Rightarrow> string \<Rightarrow> row \<Rightarrow> db \<Rightarrow> (error + response) \<times> db" where
  "respond_found eng tbl category ident opportunity d =
     (case incrementViewCount eng tbl ident d of
        (Inl e, d1) \<Rightarrow> (Inl e, d1)
      | (Inr c, d1) \<Rightarrow>
          (Inr \<lparr> statusCode = 200, body = Entity (viewed opportunity) category \<rparr>, d1))"

definition getById :: "engine \<Rightarrow> string \<Rightarrow> db \<Rightarrow> (error + response) \<times> db" where
  "getById eng ident d =
     (if \<not> isValidUUID ident
      then (Inr \<lparr> statusCode = 400, body = Failure ''Invalid ID format'' \<rparr>, d)
      else
        (case findById opportunities_work ident d of
           (Inl e, d1) \<Rightarrow> (Inl e, d1)
         | (Inr (Some opportunity), d1) \<Rightarrow>
             respond_found eng opportunities_work ''work'' ident opportunity d1
         | (Inr None, d1) \<Rightarrow>
             (case findById opportunities_event ident d1 of
                (Inl e, d2) \<Rightarrow> (Inl e, d2)
              | (Inr (Some opportunity), d2) \<Rightarrow>
                  respond_found eng opportunities_event ''event'' ident opportunity d2
              | (Inr None, d2) \<Rightarrow>
                  (Inr \<lparr> statusCode = 404, body = Failure ''Opportunity not found'' \<rparr>, d2))))"

text \<open>The tail of the \<open>update\<close> handler once a store has answered.\<close>

definition respond_updated ::
  "engine \<Rightarrow> table \<Rightarrow> string \<Rightarrow> (string \<times> jsval) list \<Rightarrow> db \<Rightarrow> (error + response) \<times> db" where
  "respond_updated eng tbl ident updates d =
     (case update eng tbl ident updates d of
        (Inl e, d1) \<Rightarrow> (Inl e, d1)
      | (Inr r, d1) \<Rightarrow> (Inr \<lparr> statusCode = 200, body = Updated r \<rparr>, d1))"

definition opportunityController_update ::
  "engine \<Rightarrow> string \<Rightarrow> (string \<times> jsval) list \<Rightarrow> db \<Rightarrow> (error + response) \<times> db" where
  "opportunityController_update eng ident updates d =
     (if \<not> isValidUUID ident
      then (Inr \<lparr> statusCode = 400, body = Failure ''Invalid ID format'' \<rparr>, d)
      else if truthy (field (map_of updates) ''work_type'')
              \<or> truthy (field (map_of updates) ''event_type'')
      then (Inr \<lparr> statusCode = 400, body = Failure ''Cannot change opportunity type'' \<rparr>, d)
      else
        (case findById opportunities_work ident d of
           (Inl e, d1) \<Rightarrow> (Inl e, d1)
         | (Inr (Some opportunity), d1) \<Rightarrow> respond_updated eng opportunities_work ident updates d1
         | (Inr None, d1) \<Rightarrow>
             (case findById opportunities_event ident d1 of
                (Inl e, d2) \<Rightarrow> (Inl e, d2)
              | (Inr (Some opportunity), d2) \<Rightarrow>
                  respond_updated eng opportunities_event ident updates d2
              | (Inr None, d2) \<Rightarrow>
                  (Inr \<lparr> statusCode = 404, body = Failure ''Opportunity not found'' \<rparr>, d2))))"

text \<open>The tail of the \<open>delete\<close> handler: \<open>await model.delete(id, hard)\<close>, then 204 with no
  body.\<close>

definition respond_deleted ::
  "engine \<Rightarrow> table \<Rightarrow> string \<Rightarrow> bool \<Rightarrow> db \<Rightarrow> (error + response) \<times> db" where
  "respond_deleted eng tbl ident hard d =
     (case delete eng tbl ident hard d of
        (Inl e, d1) \<Rightarrow> (Inl e, d1)
      | (Inr r, d1) \<Rightarrow> (Inr \<lparr> statusCode = 204, body = NoBody \<rparr>, d1))"

definition opportunityController_delete ::
  "engine \<Rightarrow> string \<Rightarrow> db \<Rightarrow> (error + response) \<times> db" where
  "opportunityController_delete eng ident d =
     (if \<not> isValidUUID ident
      then (Inr \<lparr> statusCode = 400, body = Failure ''Invalid ID format'' \<rparr>, d)
      else
        (case findById opportunities_work ident d of
           (Inl e, d1) \<Rightarrow> (Inl e, d1)
         | (Inr (Some opportunity), d1) \<Rightarrow> respond_deleted eng opportunities_work ident True d1
         | (Inr None, d1) \<Rightarrow>
             (case findById opportunities_event ident d1 of
                (Inl e, d2) \<Rightarrow> (Inl e, d2)
              | (Inr (Some opportunity), d2) \<Rightarrow>
                  respond_deleted eng opportunities_event ident False d2
              | (Inr None, d2) \<Rightarrow>
                  (Inr \<lparr> statusCode = 404, body = Failure ''Opportunity not found'' \<rparr>, d2))))"

section \<open>List endpoints: workController and eventController\<close>

text \<open>
  The body shared by the list handlers: the pagination is sanitised, the filter bag is the
  query with the properties of \<open>forced\<close> and the sort defaults written over it, and the
  answer of \<open>findAll\<close> is returned with the echo of the filters.
\<close>

definition list_filters :: "jsobj \<Rightarrow> (string \<times> jsval) \<Rightarrow> jsobj" where
  "list_filters query forced =
     query(fst forced \<mapsto> snd forced,
           ''sort'' \<mapsto> js_or (field query ''sort'') (JStr ''posted_date''),
           ''order'' \<mapsto> js_or (field query ''order'') (JStr ''desc''))"

definition list_handler ::
  "engine \<Rightarrow> table \<Rightarrow> (string \<times> jsval) \<Rightarrow> (string \<times> jsval) list \<Rightarrow> jsobj \<Rightarrow> int \<Rightarrow> db
     \<Rightarrow> (error + response) \<times> db" where
  "list_handler eng tbl forced echo query now d =
     (let pl = validatePagination (field query ''page'') (field query ''limit'') 50
      in case findAll eng tbl (list_filters query forced) (sanitizedPage pl) (sanitizedLimit pl)
                now d of
           (Inl e, d1) \<Rightarrow> (Inl e, d1)
         | (Inr result, d1) \<Rightarrow>
             (Inr \<lparr> statusCode = 200,
                    body = Listing (data result) (pagination result) echo \<rparr>, d1))"

text \<open>\<open>getInternships\<close> and \<open>getJobs\<close> write the property \<open>work_type\<close> into the filter
  bag.\<close>

definition getInternships :: "engine \<Rightarrow> jsobj \<Rightarrow> int \<Rightarrow> db \<Rightarrow> (error + response) \<times> db" where
  "getInternships eng query now d =
     list_handler eng opportunities_work (''work_type'', JStr ''internship'')
       [(''work_type'', JStr ''internship''), (''city'', field query ''city''),
        (''country'', field query ''country''), (''work_style'', field query ''work_style''),
        (''skills'', field query ''skills''), (''search'', field query ''search'')]
       query now d"

definition getJobs :: "engine \<Rightarrow> jsobj \<Rightarrow> int \<Rightarrow> db \<Rightarrow> (error + response) \<times> db" where
  "getJobs eng query now d =
     list_handler eng opportunities_work (''work_type'', JStr ''job'')
       [(''work_type'', JStr ''job''), (''city'', field query ''city''),
        (''country'', field query ''country''), (''work_style'', field query ''work_style''),
        (''experience'', field query ''experience''), (''search'', field query ''search'')]
       query now d"

text \<open>The list handlers of the event controller write the property \<open>type\<close>.\<close>

definition getHackathons :: "engine \<Rightarrow> jsobj \<Rightarrow> int \<Rightarrow> db \<Rightarrow> (error + response) \<times> db" where
  "getHackathons eng query now d =
     list_handler eng opportunities_event (''type'', JStr ''hackathon'')
       [(''event_type'', JStr ''hackathon''), (''city'', field query ''city''),
        (''fees'', field query ''fees''), (''domain'', field query ''domain'')]
       query now d"

definition getScholarships :: "engine \<Rightarrow> jsobj \<Rightarrow> int \<Rightarrow> db \<Rightarrow> (error + response) \<times> db" where
  "getScholarships eng query now d =
     list_handler eng opportunities_event (''type'', JStr ''scholarship'')
       [(''event_type'', JStr ''scholarship''), (''city'', field query ''city''),
        (''fees'', field query ''fees'')]
       query now d"

definition getLearning :: "engine \<Rightarrow> jsobj \<Rightarrow> int \<Rightarrow> db \<Rightarrow> (error + response) \<times> db" where
  "getLearning eng query now d =
     list_handler eng opportunities_event (''type'', JStr ''learning'')
       [(''event_type'', JStr ''learning''), (''learning_type'', field query ''learning_type''),
        (''fees'', field query ''fees'')]
       query now d"

section \<open>Batch Coordinator: batchCreate\<close>

text \<open>
  The body of \<open>POST /opportunities/batch\<close>: a source and the property \<open>opportunities\<close>,
  which is an array of items or some other value (undefined when it is absent). An item is
  an object or a value that is not an object.
\<close>

datatype item = Obj jsobj | Prim jsval

datatype opps = NotArray jsval | Items "item list"

record batch_body =
  source :: jsval
  opportunities :: opps

text \<open>\<open>Array.isArray(opportunities)\<close> and the elements of the array.\<close>

fun items_of :: "opps \<Rightarrow> item list option" where
  "items_of (Items xs) = Some xs"
| "items_of (NotArray (JArr xs)) = Some (map (\<lambda>x. Prim (JStr x)) xs)"
| "items_of (NotArray v) = None"

text \<open>
  The \<open>forEach\<close> that separates the items: the source is written into each item (which
  throws on null), an item without a type is skipped, a work type goes to the work list
  with \<open>work_type\<close> set, an event type to the event list with \<open>event_type\<close> set, and any
  other type is dropped.
\<close>

fun separate :: "jsval \<Rightarrow> item list \<Rightarrow> error + (jsobj list \<times> jsobj list)" where
  "separate src [] = Inr ([], [])"
| "separate src (Prim v # rest) =
     (if v = JNull \<or> v = JUndefined then Inl (TypeError ''Cannot set properties'')
      else separate src rest)"
| "separate src (Obj obj # rest) =
     (let opp = obj(''source'' \<mapsto> js_or src (JStr ''batch''));
          ty = field opp ''type''
      in case separate src rest of
           Inl e \<Rightarrow> Inl e
         | Inr (workOpps, eventOpps) \<Rightarrow>
             if \<not> truthy ty then Inr (workOpps, eventOpps)
             else if ty \<in> set [JStr ''internship'', JStr ''job'']
             then Inr (opp(''work_type'' \<mapsto> ty) # workOpps, eventOpps)
             else if ty \<in> set [JStr ''hackathon'', JStr ''learning'', JStr ''scholarship'']
             then Inr (workOpps, opp(''event_type'' \<mapsto> ty) # eventOpps)
             else Inr (workOpps, eventOpps))"

definition count_status :: "string \<Rightarrow> bulk_entry list \<Rightarrow> nat" where
  "count_status st rs = length (filter (\<lambda>r. entry_status r = st) rs)"

definition tally_of :: "bulk_entry list \<Rightarrow> counts" where
  "tally_of rs =
     \<lparr> created = count_status ''created'' rs,
       updated = count_status ''updated'' rs,
       failed = count_status ''failed'' rs \<rparr>"

definition breakdown_keys :: "(string \<times> string) list" where
  "breakdown_keys =
     [(''work'', ''internship''), (''work'', ''job''), (''event'', ''hackathon''),
      (''event'', ''learning''), (''event'', ''scholarship'')]"

text \<open>The breakdown by category and type: an entry counts under its category (work for the
  table \<open>opportunities_work\<close>, event otherwise) and its type.\<close>

definition entry_category :: "bulk_entry \<Rightarrow> string" where
  "entry_category r = (if entry_table r = ''opportunities_work'' then ''work'' else ''event'')"

definition breakdown :: "bulk_entry list \<Rightarrow> ((string \<times> string) \<times> counts) list" where
  "breakdown rs =
     map (\<lambda>(cat, ty).
            ((cat, ty),
             tally_of (filter (\<lambda>r. entry_category r = cat \<and> entry_type r = Some ty) rs)))
       breakdown_keys"

text \<open>
  \<open>batchCreate\<close>. The three guards answer 400 before anything else is done. The two
  stores are then served one after the other (the source starts both loops together; they
  work on different tables).
\<close>

definition batchCreate :: "engine \<Rightarrow> batch_body \<Rightarrow> db \<Rightarrow> (error + response) \<times> db" where
  "batchCreate eng req d =
     (case items_of (opportunities req) of
        None \<Rightarrow> (Inr \<lparr> statusCode = 400, body = Failure ''Invalid input'' \<rparr>, d)
      | Some xs \<Rightarrow>
          if length xs = 0
          then (Inr \<lparr> statusCode = 400, body = Failure ''Empty batch'' \<rparr>, d)
          else if length xs > 500
          then (Inr \<lparr> statusCode = 400, body = Failure ''Batch too large'' \<rparr>, d)
          else
            (case separate (source req) xs of
               Inl e \<Rightarrow> (Inl e, d)
             | Inr (workOpps, eventOpps) \<Rightarrow>
                 (case bulkUpsert eng opportunities_work workOpps d of
                    (workResults, d1) \<Rightarrow>
                      (case bulkUpsert eng opportunities_event eventOpps d1 of
                         (eventResults, d2) \<Rightarrow>
                           (let allResults = workResults @ eventResults
                            in (Inr \<lparr> statusCode = 200,
                                      body = BatchReport
                                        \<lparr> submitted = length xs, tally = tally_of allResults \<rparr>
                                        (breakdown allResults)
                                        (if length allResults \<le> 100 then Some allResults
                                         else None) \<rparr>,
                                d2))))))"

section \<open>Example stores\<close>

text \<open>A concrete engine and concrete rows, at which the theorems below are instantiated.\<close>

definition example_engine :: engine where
  "example_engine =
     \<lparr> bool_in = (\<lambda>s. None), timestamptz_in = (\<lambda>s. None), array_in = (\<lambda>s. None),
       int4_in = (\<lambda>s. None), ts_match = (\<lambda>doc q. False), text_le = (\<lambda>a b. True),
       date_text = (\<lambda>t. []), now_at = (\<lambda>n. int n),
       uuid_at = (\<lambda>n. ''123e4567-e89b-12d3-a456-42661417400'' @ show_nat n) \<rparr>"

definition job_row :: row where
  "job_row =
     (default_row 0 ''123e4567-e89b-12d3-a456-426614174000'')
       (''work_type'' := CText ''job'',
        ''title'' := CText ''Engineer'',
        ''apply_url'' := CText ''https://jobs.example/1'')"

definition one_job :: db where
  "one_job = \<lparr> work_rows = [job_row], event_rows = [], queries = 0 \<rparr>"


section \<open>The filter key of a predicate\<close>

text \<open>
  The filter name under whose test the Filter Compiler pushes each predicate. A predicate
  is accounted for when its key has a truthy value in the filter bag, or when it is the
  status predicate pushed by default: bound to \<open>active\<close>, with no status asked for and
  \<open>includeInactive\<close> not set.
\<close>

fun cond_key :: "cond \<Rightarrow> string" where
  "cond_key (TypeEq i) = ''type''"
| "cond_key (StatusEq i) = ''status''"
| "cond_key (CityLike i) = ''city''"
| "cond_key (CountryLike i) = ''country''"
| "cond_key (WorkStyleEq i) = ''work_style''"
| "cond_key IsFeatured = ''featured''"
| "cond_key IsVerified = ''verified''"
| "cond_key (Search i) = ''search''"
| "cond_key (TagsOverlap i) = ''tags''"
| "cond_key (SkillsOverlap i) = ''skills''"
| "cond_key (DomainOverlap i) = ''domain''"
| "cond_key (FeesEq i) = ''fees''"
| "cond_key (DeadlineBetween i j) = ''deadline''"

definition default_status :: "jsobj \<Rightarrow> pval list \<Rightarrow> cond \<Rightarrow> bool" where
  "default_status filters vs c =
     (\<exists>i. c = StatusEq i \<and> 1 \<le> i \<and> i \<le> length vs \<and> vs ! (i - 1) = PVal (JStr ''active'')
          \<and> \<not> truthy (field filters ''status'') \<and> \<not> truthy (field filters ''includeInactive''))"

definition justified :: "jsobj \<Rightarrow> pval list \<Rightarrow> cond \<Rightarrow> bool" where
  "justified filters vs c = (truthy (field filters (cond_key c)) \<or> default_status filters vs c)"

definition compiled_ok :: "jsobj \<Rightarrow> where_state \<Rightarrow> bool" where
  "compiled_ok filters s =
     (paramIndex s = Suc (length (vals s)) \<and> list_all (justified filters (vals s)) (conditions s))"

text \<open>A compiler state that keeps the predicates and values of an earlier one as a
  prefix.\<close>

definition extends :: "where_state \<Rightarrow> where_state \<Rightarrow> bool" where
  "extends s s' = (\<exists>cs vs. conditions s' = conditions s @ cs \<and> vals s' = vals s @ vs)"

text \<open>A submission of 501 items.\<close>

definition oversized_batch :: batch_body where
  "oversized_batch =
     \<lparr> source = JStr ''scraper'',
       opportunities = Items (replicate 501
         (Obj (map_of [(''type'', JStr ''job''), (''title'', JStr ''Engineer''),
                       (''apply_url'', JStr ''https://jobs.example/1'')]))) \<rparr>"

text \<open>A hackathon that carries the identifier of \<open>job_row\<close>, stores that hold one or both
  of the two rows, and the identifier as a client may spell it.\<close>

definition hackathon_row :: row where
  "hackathon_row =
     (default_row 0 ''123e4567-e89b-12d3-a456-426614174000'')
       (''event_type'' := CText ''hackathon'',
        ''title'' := CText ''Hack Day'',
        ''apply_url'' := CText ''https://events.example/1'')"


definition one_hackathon :: db where
  "one_hackathon = \<lparr> work_rows = [], event_rows = [hackathon_row], queries = 0 \<rparr>"

definition example_id :: string where
  "example_id = ''123E4567-E89B-12D3-A456-426614174000''"

text \<open>
  A \<open>SET\<close> list keeps the key when it assigns neither the discriminator column nor
  \<open>apply_url\<close>. Below: rows that are expired and archived, re-submissions of them, and
  the submission of the spec's example.
\<close>

definition keeps_key :: "table \<Rightarrow> (int \<Rightarrow> row \<Rightarrow> row \<Rightarrow> row) \<Rightarrow> bool" where
  "keeps_key tbl oc =
     (\<forall>now old p. oc now old p (typeField tbl) = old (typeField tbl)
                 \<and> oc now old p ''apply_url'' = old ''apply_url'')"

definition stale_job :: row where
  "stale_job =
     job_row(''status'' := CText ''expired'', ''is_verified'' := CBool True,
             ''source'' := CText ''scraper'', ''external_id'' := CText ''ext-1'')"

definition stale_hackathon :: row where
  "stale_hackathon =
     hackathon_row(''status'' := CText ''archived'', ''is_featured'' := CBool True,
                   ''source'' := CText ''scraper'')"

definition stale_store :: db where
  "stale_store = \<lparr> work_rows = [stale_job], event_rows = [stale_hackathon], queries = 5 \<rparr>"

definition job_again :: jsobj where
  "job_again =
     map_of [(''title'', JStr ''Engineer II''), (''apply_url'', JStr ''https://jobs.example/1''),
             (''source'', JStr ''rescan''), (''is_featured'', JBool True)]"

definition hackathon_again :: jsobj where
  "hackathon_again =
     map_of [(''title'', JStr ''Hack Day 2''), (''apply_url'', JStr ''https://events.example/1''),
             (''source'', JStr ''rescan''), (''is_verified'', JBool True)]"

definition empty_store :: db where
  "empty_store = \<lparr> work_rows = [], event_rows = [], queries = 0 \<rparr>"

definition first_submission :: jsobj where
  "first_submission =
     map_of [(''title'', JStr ''X''), (''apply_url'', JStr ''https://good.example/a'')]"

text \<open>A compiler state whose predicates refer to the parameters 1, 2, ... in order, one
  for each bound value, with \<open>paramIndex\<close> the next free one.\<close>

definition numbered :: "where_state \<Rightarrow> bool" where
  "numbered s =
     (paramIndex s = Suc (length (vals s))
      \<and> concat (map cond_params (conditions s)) = [1..<paramIndex s])"


section \<open>Pagination\<close>








section \<open>Filter Compiler: which predicates are emitted\<close>

lemma justified_append: "justified filters vs c \<Longrightarrow> justified filters (vs @ ws) c"
  by (auto simp: justified_def default_status_def nth_append)

lemma list_all_justified_append:
  "list_all (justified filters vs) cs \<Longrightarrow> list_all (justified filters (vs @ ws)) cs"
  by (induction cs) (auto intro: justified_append)

lemma push_ok:
  "compiled_ok filters s \<Longrightarrow> justified filters (vals s @ [v]) c \<Longrightarrow> compiled_ok filters (push c v s)"
  by (simp add: compiled_ok_def push_def list_all_justified_append)

lemma justified_key: "truthy (field filters (cond_key c)) \<Longrightarrow> justified filters vs c"
  by (simp add: justified_def)

lemma type_filter_ok: "compiled_ok filters s \<Longrightarrow> compiled_ok filters (type_filter filters s)"
  by (simp add: type_filter_def push_ok justified_key)

lemma status_filter_ok: "compiled_ok filters s \<Longrightarrow> compiled_ok filters (status_filter filters s)"
proof -
  assume ok: "compiled_ok filters s"
  then have idx: "paramIndex s = Suc (length (vals s))" by (simp add: compiled_ok_def)
  show ?thesis
  proof (cases "truthy (field filters ''status'')")
    case True
    then show ?thesis by (simp add: status_filter_def push_ok [OF ok] justified_key)
  next
    case False
    show ?thesis
    proof (cases "truthy (field filters ''includeInactive'')")
      case True
      with False ok show ?thesis by (simp add: status_filter_def)
    next
      case incl: False
      have "justified filters (vals s @ [PVal (JStr ''active'')]) (StatusEq (paramIndex s))"
        using False incl idx by (simp add: justified_def default_status_def)
      with False incl show ?thesis by (simp add: status_filter_def push_ok [OF ok])
    qed
  qed
qed

lemma city_filter_ok: "compiled_ok filters s \<Longrightarrow> compiled_ok filters (city_filter filters s)"
  by (simp add: city_filter_def push_ok justified_key)

lemma country_filter_ok: "compiled_ok filters s \<Longrightarrow> compiled_ok filters (country_filter filters s)"
  by (simp add: country_filter_def push_ok justified_key)

lemma work_style_filter_ok:
  "compiled_ok filters s \<Longrightarrow> compiled_ok filters (work_style_filter filters s)"
  by (simp add: work_style_filter_def push_ok justified_key)

lemma featured_filter_ok: "compiled_ok filters s \<Longrightarrow> compiled_ok filters (featured_filter filters s)"
  by (auto simp: featured_filter_def compiled_ok_def justified_def)

lemma verified_filter_ok: "compiled_ok filters s \<Longrightarrow> compiled_ok filters (verified_filter filters s)"
  by (auto simp: verified_filter_def compiled_ok_def justified_def)

lemma search_filter_ok: "compiled_ok filters s \<Longrightarrow> compiled_ok filters (search_filter filters s)"
  by (simp add: search_filter_def push_ok justified_key)

lemma array_filter_ok:
  "compiled_ok filters s \<Longrightarrow> array_filter key mk filters s = Inr s' \<Longrightarrow>
   (\<And>i. cond_key (mk i) = key) \<Longrightarrow> compiled_ok filters s'"
  by (auto simp: array_filter_def split: if_splits sum.splits intro!: push_ok justified_key)

lemma fees_filter_ok: "compiled_ok filters s \<Longrightarrow> compiled_ok filters (fees_filter filters s)"
  by (simp add: fees_filter_def push_ok justified_key)

lemma push_window_ok:
  "compiled_ok filters s \<Longrightarrow> truthy (field filters ''deadline'') \<Longrightarrow>
   compiled_ok filters (push_window now days s)"
  by (simp add: compiled_ok_def push_window_def list_all_justified_append justified_key)

lemma deadline_filter_ok:
  "compiled_ok filters s \<Longrightarrow> compiled_ok filters (deadline_filter filters now s)"
  by (simp add: deadline_filter_def push_window_ok)

lemma buildWhereClause_ok:
  assumes "buildWhereClause filters now = Inr s"
  shows "compiled_ok filters s"
proof -
  have s0: "compiled_ok filters \<lparr> conditions = [], vals = [], paramIndex = 1 \<rparr>"
    by (simp add: compiled_ok_def)
  let ?s8 = "search_filter filters (verified_filter filters (featured_filter filters
              (work_style_filter filters (country_filter filters (city_filter filters
                (status_filter filters (type_filter filters
                   \<lparr> conditions = [], vals = [], paramIndex = 1 \<rparr>)))))))"
  have s8: "compiled_ok filters ?s8"
    by (intro search_filter_ok verified_filter_ok featured_filter_ok work_style_filter_ok
          country_filter_ok city_filter_ok status_filter_ok type_filter_ok s0)
  from assms obtain s9 s10 s11 where
    a9: "array_filter ''tags'' TagsOverlap filters ?s8 = Inr s9"
    and a10: "array_filter ''skills'' SkillsOverlap filters s9 = Inr s10"
    and a11: "array_filter ''domain'' DomainOverlap filters s10 = Inr s11"
    and fin: "s = deadline_filter filters now (fees_filter filters s11)"
    by (auto simp: buildWhereClause_def Let_def split: sum.splits)
  have "compiled_ok filters s9" using array_filter_ok [OF s8 a9] by simp
  then have "compiled_ok filters s10" using array_filter_ok [OF _ a10] by simp
  then have "compiled_ok filters s11" using array_filter_ok [OF _ a11] by simp
  then show ?thesis unfolding fin by (intro deadline_filter_ok fees_filter_ok)
qed




section \<open>Type-specific list endpoints\<close>

text \<open>
  The list handlers of the work controller write \<open>work_type\<close> into the filter bag, and the
  Filter Compiler reads \<open>type\<close>: the type the compiler sees is whatever the query itself
  carries. The handlers of the event controller write \<open>type\<close>, and their predicate on the
  discriminator column is always the first one emitted.
\<close>

lemma work_list_type_is_the_query's:
  "field (list_filters query (''work_type'', v)) ''type'' = field query ''type''"
  by (simp add: list_filters_def field_def)

lemma event_list_type_is_forced:
  "field (list_filters query (''type'', v)) ''type'' = v"
  by (simp add: list_filters_def field_def)

lemma extends_refl: "extends s s"
  by (simp add: extends_def)

lemma extends_trans: "extends a b \<Longrightarrow> extends b c \<Longrightarrow> extends a c"
  by (auto simp: extends_def)

lemma push_extends: "extends s (push c v s)"
  by (simp add: extends_def push_def)

lemma status_filter_extends: "extends s (status_filter filters s)"
  by (simp add: status_filter_def push_extends extends_refl)

lemma city_filter_extends: "extends s (city_filter filters s)"
  by (simp add: city_filter_def push_extends extends_refl)

lemma country_filter_extends: "extends s (country_filter filters s)"
  by (simp add: country_filter_def push_extends extends_refl)

lemma work_style_filter_extends: "extends s (work_style_filter filters s)"
  by (simp add: work_style_filter_def push_extends extends_refl)

lemma featured_filter_extends: "extends s (featured_filter filters s)"
  by (simp add: featured_filter_def extends_def)

lemma verified_filter_extends: "extends s (verified_filter filters s)"
  by (simp add: verified_filter_def extends_def)

lemma search_filter_extends: "extends s (search_filter filters s)"
  by (simp add: search_filter_def push_extends extends_refl)

lemma array_filter_extends: "array_filter key mk filters s = Inr s' \<Longrightarrow> extends s s'"
  by (auto simp: array_filter_def push_extends extends_refl split: if_splits sum.splits)

lemma fees_filter_extends: "extends s (fees_filter filters s)"
  by (simp add: fees_filter_def push_extends extends_refl)

lemma deadline_filter_extends: "extends s (deadline_filter filters now s)"
  by (simp add: deadline_filter_def push_window_def extends_def)

lemma buildWhereClause_extends:
  assumes "buildWhereClause filters now = Inr s"
  shows "extends (type_filter filters \<lparr> conditions = [], vals = [], paramIndex = 1 \<rparr>) s"
proof -
  let ?s1 = "type_filter filters \<lparr> conditions = [], vals = [], paramIndex = 1 \<rparr>"
  let ?s2 = "status_filter filters ?s1"
  let ?s3 = "city_filter filters ?s2"
  let ?s4 = "country_filter filters ?s3"
  let ?s5 = "work_style_filter filters ?s4"
  let ?s6 = "featured_filter filters ?s5"
  let ?s7 = "verified_filter filters ?s6"
  let ?s8 = "search_filter filters ?s7"
  have "extends ?s1 ?s2" by (rule status_filter_extends)
  then have "extends ?s1 ?s3" by (rule extends_trans [OF _ city_filter_extends])
  then have "extends ?s1 ?s4" by (rule extends_trans [OF _ country_filter_extends])
  then have "extends ?s1 ?s5" by (rule extends_trans [OF _ work_style_filter_extends])
  then have "extends ?s1 ?s6" by (rule extends_trans [OF _ featured_filter_extends])
  then have "extends ?s1 ?s7" by (rule extends_trans [OF _ verified_filter_extends])
  then have s8: "extends ?s1 ?s8" by (rule extends_trans [OF _ search_filter_extends])
  from assms obtain s9 s10 s11 where
    a9: "array_filter ''tags'' TagsOverlap filters ?s8 = Inr s9"
    and a10: "array_filter ''skills'' SkillsOverlap filters s9 = Inr s10"
    and a11: "array_filter ''domain'' DomainOverlap filters s10 = Inr s11"
    and fin: "s = deadline_filter filters now (fees_filter filters s11)"
    by (auto simp: buildWhereClause_def Let_def split: sum.splits)
  from s8 have "extends ?s1 s9" by (rule extends_trans [OF _ array_filter_extends [OF a9]])
  then have "extends ?s1 s10" by (rule extends_trans [OF _ array_filter_extends [OF a10]])
  then have "extends ?s1 s11" by (rule extends_trans [OF _ array_filter_extends [OF a11]])
  then have "extends ?s1 (fees_filter filters s11)"
    by (rule extends_trans [OF _ fees_filter_extends])
  then have "extends ?s1 (deadline_filter filters now (fees_filter filters s11))"
    by (rule extends_trans [OF _ deadline_filter_extends])
  then show ?thesis by (simp only: fin)
qed

lemma type_filter_first:
  assumes "buildWhereClause filters now = Inr s" and "truthy (field filters ''type'')"
  shows "\<exists>cs vs. conditions s = TypeEq 1 # cs \<and> vals s = PVal (field filters ''type'') # vs"
  using buildWhereClause_extends [OF assms(1)] assms(2)
  by (simp add: extends_def type_filter_def push_def)

lemma hackathons_filter_has_type:
  "buildWhereClause (list_filters query (''type'', JStr ''hackathon'')) now = Inr s \<Longrightarrow>
   \<exists>cs vs. conditions s = TypeEq 1 # cs \<and> vals s = PVal (JStr ''hackathon'') # vs"
  using type_filter_first [of "list_filters query (''type'', JStr ''hackathon'')" now s]
  by (simp add: event_list_type_is_forced)

lemma internships_filter_without_type:
  assumes "buildWhereClause (list_filters query (''work_type'', JStr ''internship'')) now = Inr s"
    and "\<not> truthy (field query ''type'')"
  shows "\<forall>i. TypeEq i \<notin> set (conditions s)"
proof
  fix i
  show "TypeEq i \<notin> set (conditions s)"
  proof
    assume "TypeEq i \<in> set (conditions s)"
    with buildWhereClause_ok [OF assms(1)]
    have "justified (list_filters query (''work_type'', JStr ''internship'')) (vals s) (TypeEq i)"
      by (simp add: compiled_ok_def list_all_iff)
    then have "truthy (field (list_filters query (''work_type'', JStr ''internship'')) ''type'')"
      by (simp add: justified_def default_status_def)
    with assms(2) show False by (simp add: work_list_type_is_the_query's)
  qed
qed

text \<open>
  Claim C1 fails on the code. For \<open>GET /internships\<close> with an empty query the filter bag
  compiles to the status predicate alone, with no predicate on \<open>work_type\<close>, and on a store
  that holds one active job the endpoint lists that job.
\<close>

theorem getInternships_lists_a_job:
  "buildWhereClause (list_filters (map_of []) (''work_type'', JStr ''internship'')) 0
     = Inr \<lparr> conditions = [StatusEq 1], vals = [PVal (JStr ''active'')], paramIndex = 2 \<rparr>
   \<and> (case getInternships example_engine (map_of []) 0 one_job of
         (Inr res, d') \<Rightarrow>
           (case body res of
              Listing rs pg echo \<Rightarrow> map (\<lambda>r. r ''work_type'') rs = [CText ''job'']
            | _ \<Rightarrow> False)
       | (Inl e, d') \<Rightarrow> False)"
  by code_simp

section \<open>Batch Coordinator: the guards\<close>

text \<open>
  Claim C9. When \<open>opportunities\<close> is absent or not an array, or is an array that is empty
  or has more than 500 elements, \<open>batchCreate\<close> answers 400 and returns the storage state
  it was given: no row is changed and no statement has been sent.
\<close>

theorem batch_rejected_before_any_upsert:
  assumes "(\<exists>v. opportunities req = NotArray v \<and> \<not> isArray v)
         \<or> (\<exists>xs. items_of (opportunities req) = Some xs \<and> (xs = [] \<or> 500 < length xs))"
  shows "\<exists>msg. batchCreate eng req d = (Inr \<lparr> statusCode = 400, body = Failure msg \<rparr>, d)"
  using assms
proof
  assume "\<exists>v. opportunities req = NotArray v \<and> \<not> isArray v"
  then obtain v where v: "opportunities req = NotArray v" "\<not> isArray v" by blast
  then have "items_of (opportunities req) = None"
    by (cases v) (simp_all add: isArray_def)
  then show ?thesis by (simp add: batchCreate_def)
next
  assume "\<exists>xs. items_of (opportunities req) = Some xs \<and> (xs = [] \<or> 500 < length xs)"
  then obtain xs where xs: "items_of (opportunities req) = Some xs" "xs = [] \<or> 500 < length xs"
    by blast
  show ?thesis
  proof (cases "xs = []")
    case True
    with xs show ?thesis by (simp add: batchCreate_def)
  next
    case False
    with xs have "500 < length xs" by simp
    with xs False show ?thesis by (simp add: batchCreate_def)
  qed
qed

theorem batch_rejected_before_any_upsert_witness:
  "\<exists>msg. batchCreate example_engine oversized_batch one_job
           = (Inr \<lparr> statusCode = 400, body = Failure msg \<rparr>, one_job)"
proof -
  have "items_of (opportunities oversized_batch)
          = Some (replicate 501
         (Obj (map_of [(''type'', JStr ''job''), (''title'', JStr ''Engineer''),
                       (''apply_url'', JStr ''https://jobs.example/1'')])))"
    by (simp add: oversized_batch_def)
  moreover have "500 < length (replicate 501
         (Obj (map_of [(''type'', JStr ''job''), (''title'', JStr ''Engineer''),
                       (''apply_url'', JStr ''https://jobs.example/1'')])))"
    by simp
  ultimately have "\<exists>xs. items_of (opportunities oversized_batch) = Some xs \<and> (xs = [] \<or> 500 < length xs)"
    by blast
  then show ?thesis
    using batch_rejected_before_any_upsert [of oversized_batch example_engine one_job] by blast
qed

section \<open>Polymorphic Resolver\<close>

lemma rows_of_issued [simp]: "rows_of tbl (issued d) = rows_of tbl d"
  by (cases tbl) (simp_all add: issued_def)

lemma work_rows_issued [simp]: "work_rows (issued d) = work_rows d"
  by (simp add: issued_def)

lemma event_rows_issued [simp]: "event_rows (issued d) = event_rows d"
  by (simp add: issued_def)

lemma rows_of_set_rows [simp]: "rows_of tbl (set_rows tbl rs d) = rs"
  by (cases tbl) simp_all

lemma event_rows_set_work [simp]: "event_rows (set_rows opportunities_work rs d) = event_rows d"
  by simp

lemma work_rows_set_event [simp]: "work_rows (set_rows opportunities_event rs d) = work_rows d"
  by simp

lemma uuid_in_valid: "isValidUUID ident \<Longrightarrow> uuid_in ident = Some (toLowerCase ident)"
  by (simp add: uuid_in_def)

lemma findById_valid:
  "isValidUUID ident \<Longrightarrow>
   findById tbl ident d = (Inr (find (has_id (toLowerCase ident)) (rows_of tbl d)), issued d)"
  by (simp add: findById_def uuid_in_valid)

lemma incrementViewCount_other_rows:
  "incrementViewCount eng opportunities_work ident d = (r, d') \<Longrightarrow> event_rows d' = event_rows d"
  "incrementViewCount eng opportunities_event ident d = (r, d') \<Longrightarrow> work_rows d' = work_rows d"
  by (auto simp: incrementViewCount_def Let_def split: option.splits sum.splits)


lemma update_no_valid_fields:
  "setClause updates = [] \<Longrightarrow>
   update eng tbl ident updates d = (Inl (Error ''No valid fields to update''), d)"
  by (simp add: update_def)

lemma setClause_none_allowed:
  "\<forall>(f, v) \<in> set updates. f \<notin> set allowedFields \<Longrightarrow> setClause updates = []"
  by (auto simp: setClause_def filter_empty_conv)

lemma delete_hard_found:
  "isValidUUID ident \<Longrightarrow> find (has_id (toLowerCase ident)) (rows_of tbl d) = Some w \<Longrightarrow>
   delete eng tbl ident True d
     = (Inr (w ''id''),
        set_rows tbl (filter (\<lambda>r. \<not> has_id (toLowerCase ident) r) (rows_of tbl d)) (issued d))"
  by (simp add: delete_def uuid_in_valid)



lemma respond_found_work_rows:
  "respond_found eng opportunities_work cat ident w d = (r, d') \<Longrightarrow> event_rows d' = event_rows d"
  by (auto simp: respond_found_def split: prod.splits sum.splits
        dest: incrementViewCount_other_rows)

lemma delete_work_hit:
  assumes "isValidUUID ident" and "find (has_id (toLowerCase ident)) (work_rows d) = Some w"
  shows "opportunityController_delete eng ident d
           = (Inr \<lparr> statusCode = 204, body = NoBody \<rparr>,
              set_rows opportunities_work
                (filter (\<lambda>r. \<not> has_id (toLowerCase ident) r) (work_rows d)) (issued (issued d)))"
  using assms
  by (simp add: opportunityController_delete_def findById_valid respond_deleted_def
        delete_hard_found)

lemma update_work_hit:
  assumes "isValidUUID ident" and "find (has_id (toLowerCase ident)) (work_rows d) = Some w"
    and "\<not> truthy (field (map_of updates) ''work_type'')"
    and "\<not> truthy (field (map_of updates) ''event_type'')"
  shows "opportunityController_update eng ident updates d
           = respond_updated eng opportunities_work ident updates (issued d)"
  using assms by (simp add: opportunityController_update_def findById_valid)


lemma plus_one_ok:
  "check_count v \<Longrightarrow> \<forall>n. v = CInt n \<longrightarrow> n < 2147483647 \<Longrightarrow>
   \<exists>c. plus_one v = Inr c \<and> check_count c"
  by (cases v) (auto simp: plus_one_def check_count_def)

lemma constraint_error_viewed:
  assumes "constraint_error tbl r = None" and "check_count c"
  shows "constraint_error tbl (r(''view_count'' := c, ''updated_at'' := CTime t)) = None"
  using assms
  by (cases tbl) (simp_all add: constraint_error_def split: if_splits)

lemma respond_found_ok:
  assumes "isValidUUID ident"
    and "find (has_id (toLowerCase ident)) (rows_of tbl d) = Some r"
    and "constraint_error tbl r = None"
    and "\<forall>n. r ''view_count'' = CInt n \<longrightarrow> n < 2147483647"
  shows "\<exists>d'. respond_found eng tbl cat ident r d
                = (Inr \<lparr> statusCode = 200, body = Entity (viewed r) cat \<rparr>, d')"
proof -
  from assms(3) have "check_count (r ''view_count'')"
    by (cases tbl) (simp_all add: constraint_error_def split: if_splits)
  from plus_one_ok [OF this assms(4)] obtain c where
    c: "plus_one (r ''view_count'') = Inr c" "check_count c" by blast
  show ?thesis
    using assms(1,2) c constraint_error_viewed [OF assms(3) c(2)]
    by (simp add: respond_found_def incrementViewCount_def uuid_in_valid Let_def)
qed




section \<open>Delete semantics\<close>

lemma find_filter_not: "find P (filter (\<lambda>r. \<not> P r) rs) = None"
  by (induction rs) auto

lemma find_replace_first:
  "find P rs = Some old \<Longrightarrow> P new \<Longrightarrow> find P (replace_first P new rs) = Some new"
  by (induction rs) (auto split: if_splits)

lemma length_replace_first [simp]: "length (replace_first P new rs) = length rs"
  by (induction rs) auto

lemma find_Some_holds: "find P rs = Some x \<Longrightarrow> P x"
  by (induction rs) (auto split: if_splits)

lemma getById_miss:
  assumes "isValidUUID ident"
    and "find (has_id (toLowerCase ident)) (work_rows d) = None"
    and "find (has_id (toLowerCase ident)) (event_rows d) = None"
  shows "getById eng ident d
           = (Inr \<lparr> statusCode = 404, body = Failure ''Opportunity not found'' \<rparr>,
              issued (issued d))"
  using assms by (simp add: getById_def findById_valid)

lemma getById_event_hit:
  assumes "isValidUUID ident"
    and "find (has_id (toLowerCase ident)) (work_rows d) = None"
    and "find (has_id (toLowerCase ident)) (event_rows d) = Some ev"
  shows "getById eng ident d
           = respond_found eng opportunities_event ''event'' ident ev (issued (issued d))"
  using assms by (simp add: getById_def findById_valid)

lemma constraint_error_archived:
  assumes "constraint_error opportunities_event ev = None"
  shows "constraint_error opportunities_event
           (ev(''status'' := CText ''archived'', ''updated_at'' := CTime t)) = None"
  using assms
  by (simp add: constraint_error_def check_in_def split: if_splits)

lemma delete_soft_found:
  assumes "isValidUUID ident"
    and "find (has_id (toLowerCase ident)) (event_rows d) = Some ev"
    and "constraint_error opportunities_event ev = None"
  shows "delete eng opportunities_event ident False d
           = (Inr (ev ''id''),
              set_rows opportunities_event
                (replace_first (has_id (toLowerCase ident))
                   (ev(''status'' := CText ''archived'',
                       ''updated_at'' := CTime (now_at eng (queries d))))
                   (event_rows d))
                (issued d))"
  using assms
  by (simp add: delete_def uuid_in_valid Let_def constraint_error_archived)

lemma delete_event_hit:
  assumes "isValidUUID ident"
    and "find (has_id (toLowerCase ident)) (work_rows d) = None"
    and "find (has_id (toLowerCase ident)) (event_rows d) = Some ev"
    and "constraint_error opportunities_event ev = None"
  shows "opportunityController_delete eng ident d
           = (Inr \<lparr> statusCode = 204, body = NoBody \<rparr>,
              set_rows opportunities_event
                (replace_first (has_id (toLowerCase ident))
                   (ev(''status'' := CText ''archived'',
                       ''updated_at'' := CTime (now_at eng (Suc (Suc (queries d))))))
                   (event_rows d))
                (issued (issued (issued d))))"
  using assms
  by (simp add: opportunityController_delete_def findById_valid respond_deleted_def
        delete_soft_found issued_def)

lemma respond_found_event_ok:
  assumes "isValidUUID ident"
    and "find (has_id (toLowerCase ident)) (event_rows d) = Some ev"
    and "constraint_error opportunities_event ev = None"
    and "(\<forall>n. ev ''view_count'' = CInt n \<longrightarrow> n < 2147483647)"
  shows "\<exists>d'. respond_found eng opportunities_event ''event'' ident ev d
                = (Inr \<lparr> statusCode = 200, body = Entity (viewed ev) ''event'' \<rparr>, d')"
  using respond_found_ok [of ident opportunities_event d ev eng "''event''"] assms
  by simp

text \<open>
  Claim C7. With identifiers unique across the two stores: deleting an identifier held by
  the work store answers 204 with no body, the row is gone and a fetch after it answers
  404; deleting an identifier held by the event store answers 204 with no body, the row
  is kept with status \<open>archived\<close> and every other column but \<open>updated_at\<close> as it was, and a
  fetch after it returns that row, tagged \<open>event\<close>. The event row is one that satisfies the
  constraints of its table, with a view counter below the largest 32-bit integer.
\<close>

theorem delete_is_hard_for_work_and_soft_for_events:
  assumes "isValidUUID ident"
  shows "(\<forall>w. find (has_id (toLowerCase ident)) (work_rows d) = Some w
              \<and> find (has_id (toLowerCase ident)) (event_rows d) = None \<longrightarrow>
            (\<exists>d'. opportunityController_delete eng ident d
                     = (Inr \<lparr> statusCode = 204, body = NoBody \<rparr>, d')
                 \<and> find (has_id (toLowerCase ident)) (work_rows d') = None
                 \<and> event_rows d' = event_rows d
                 \<and> (\<exists>d''. getById eng ident d'
                            = (Inr \<lparr> statusCode = 404,
                                     body = Failure ''Opportunity not found'' \<rparr>, d''))))
       \<and> (\<forall>ev. find (has_id (toLowerCase ident)) (work_rows d) = None
               \<and> find (has_id (toLowerCase ident)) (event_rows d) = Some ev
               \<and> constraint_error opportunities_event ev = None
               \<and> (\<forall>n. ev ''view_count'' = CInt n \<longrightarrow> n < 2147483647) \<longrightarrow>
            (\<exists>d' ev'. opportunityController_delete eng ident d
                     = (Inr \<lparr> statusCode = 204, body = NoBody \<rparr>, d')
                 \<and> work_rows d' = work_rows d
                 \<and> length (event_rows d') = length (event_rows d)
                 \<and> find (has_id (toLowerCase ident)) (event_rows d') = Some ev'
                 \<and> ev' ''status'' = CText ''archived''
                 \<and> (\<forall>c. c \<noteq> ''status'' \<and> c \<noteq> ''updated_at'' \<longrightarrow> ev' c = ev c)
                 \<and> (\<exists>d''. getById eng ident d'
                            = (Inr \<lparr> statusCode = 200,
                                     body = Entity (viewed ev') ''event'' \<rparr>, d''))))"
proof (intro conjI allI impI)
  fix w
  assume h: "find (has_id (toLowerCase ident)) (work_rows d) = Some w
              \<and> find (has_id (toLowerCase ident)) (event_rows d) = None"
  let ?d' = "set_rows opportunities_work
                (filter (\<lambda>r. \<not> has_id (toLowerCase ident) r) (work_rows d)) (issued (issued d))"
  have del: "opportunityController_delete eng ident d
               = (Inr \<lparr> statusCode = 204, body = NoBody \<rparr>, ?d')"
    using delete_work_hit [OF assms] h by blast
  have gone: "find (has_id (toLowerCase ident)) (work_rows ?d') = None"
    by (simp add: find_filter_not)
  have ev: "event_rows ?d' = event_rows d" by simp
  have miss: "find (has_id (toLowerCase ident)) (event_rows ?d') = None"
    using h ev by simp
  have "getById eng ident ?d'
          = (Inr \<lparr> statusCode = 404, body = Failure ''Opportunity not found'' \<rparr>,
             issued (issued ?d'))"
    by (rule getById_miss [OF assms gone miss])
  with del gone ev
  show "\<exists>d'. opportunityController_delete eng ident d
                     = (Inr \<lparr> statusCode = 204, body = NoBody \<rparr>, d')
                 \<and> find (has_id (toLowerCase ident)) (work_rows d') = None
                 \<and> event_rows d' = event_rows d
                 \<and> (\<exists>d''. getById eng ident d'
                            = (Inr \<lparr> statusCode = 404,
                                     body = Failure ''Opportunity not found'' \<rparr>, d''))"
    by blast
next
  fix ev
  assume h: "find (has_id (toLowerCase ident)) (work_rows d) = None
               \<and> find (has_id (toLowerCase ident)) (event_rows d) = Some ev
               \<and> constraint_error opportunities_event ev = None
               \<and> (\<forall>n. ev ''view_count'' = CInt n \<longrightarrow> n < 2147483647)"
  let ?ev' = "ev(''status'' := CText ''archived'',
                 ''updated_at'' := CTime (now_at eng (Suc (Suc (queries d)))))"
  let ?d' = "set_rows opportunities_event
                (replace_first (has_id (toLowerCase ident)) ?ev' (event_rows d))
                (issued (issued (issued d)))"
  from h have hit: "has_id (toLowerCase ident) ev"
    by (auto dest: find_Some_holds)
  then have hit': "has_id (toLowerCase ident) ?ev'"
    by (simp add: has_id_def)
  have del: "opportunityController_delete eng ident d
               = (Inr \<lparr> statusCode = 204, body = NoBody \<rparr>, ?d')"
    using delete_event_hit [OF assms] h by blast
  have wk: "work_rows ?d' = work_rows d" by simp
  have len: "length (event_rows ?d') = length (event_rows d)" by simp
  have fnd: "find (has_id (toLowerCase ident)) (event_rows ?d') = Some ?ev'"
    using find_replace_first [of "has_id (toLowerCase ident)" "event_rows d" ev ?ev'] h hit'
    by simp
  have ok': "constraint_error opportunities_event ?ev' = None"
    using h by (simp add: constraint_error_archived)
  have vc: "\<forall>n. ?ev' ''view_count'' = CInt n \<longrightarrow> n < 2147483647" using h by simp
  have miss: "find (has_id (toLowerCase ident)) (work_rows ?d') = None" using h wk by simp
  have fnd2: "find (has_id (toLowerCase ident)) (event_rows (issued (issued ?d'))) = Some ?ev'"
    using fnd by simp
  have rf: "\<exists>d''. respond_found eng opportunities_event ''event'' ident ?ev' (issued (issued ?d'))
                = (Inr \<lparr> statusCode = 200, body = Entity (viewed ?ev') ''event'' \<rparr>, d'')"
    by (rule respond_found_event_ok [OF assms fnd2 ok' vc])
  have fetch: "\<exists>d''. getById eng ident ?d'
                = (Inr \<lparr> statusCode = 200, body = Entity (viewed ?ev') ''event'' \<rparr>, d'')"
    unfolding getById_event_hit [OF assms miss fnd] by (rule rf)
  have st: "?ev' ''status'' = CText ''archived''" by simp
  have fr: "\<forall>c. c \<noteq> ''status'' \<and> c \<noteq> ''updated_at'' \<longrightarrow> ?ev' c = ev c" by simp
  show "\<exists>d' ev'. opportunityController_delete eng ident d
                     = (Inr \<lparr> statusCode = 204, body = NoBody \<rparr>, d')
                 \<and> work_rows d' = work_rows d
                 \<and> length (event_rows d') = length (event_rows d)
                 \<and> find (has_id (toLowerCase ident)) (event_rows d') = Some ev'
                 \<and> ev' ''status'' = CText ''archived''
                 \<and> (\<forall>c. c \<noteq> ''status'' \<and> c \<noteq> ''updated_at'' \<longrightarrow> ev' c = ev c)
                 \<and> (\<exists>d''. getById eng ident d'
                            = (Inr \<lparr> statusCode = 200,
                                     body = Entity (viewed ev') ''event'' \<rparr>, d''))"
    using del wk len fnd st fr fetch by blast
qed


lemma one_job_hit:
  "isValidUUID example_id
   \<and> (case find (has_id (toLowerCase example_id)) (work_rows one_job) of
         Some w \<Rightarrow> True | None \<Rightarrow> False)
   \<and> find (has_id (toLowerCase example_id)) (event_rows one_job) = None"
  by code_simp

lemma one_hackathon_hit:
  "find (has_id (toLowerCase example_id)) (work_rows one_hackathon) = None
   \<and> (case find (has_id (toLowerCase example_id)) (event_rows one_hackathon) of
         Some ev \<Rightarrow> constraint_error opportunities_event ev = None \<and> ev ''view_count'' = CInt 0
       | None \<Rightarrow> False)"
  by code_simp

theorem delete_is_hard_for_work_and_soft_for_events_witness:
  "(\<exists>d'. opportunityController_delete example_engine example_id one_job
            = (Inr \<lparr> statusCode = 204, body = NoBody \<rparr>, d')
        \<and> find (has_id (toLowerCase example_id)) (work_rows d') = None
        \<and> event_rows d' = event_rows one_job
        \<and> (\<exists>d''. getById example_engine example_id d'
                   = (Inr \<lparr> statusCode = 404, body = Failure ''Opportunity not found'' \<rparr>,
                      d'')))
   \<and> (\<exists>ev d' ev'. opportunityController_delete example_engine example_id one_hackathon
                = (Inr \<lparr> statusCode = 204, body = NoBody \<rparr>, d')
          \<and> work_rows d' = work_rows one_hackathon
          \<and> length (event_rows d') = length (event_rows one_hackathon)
          \<and> find (has_id (toLowerCase example_id)) (event_rows d') = Some ev'
          \<and> ev' ''status'' = CText ''archived''
          \<and> (\<forall>c. c \<noteq> ''status'' \<and> c \<noteq> ''updated_at'' \<longrightarrow> ev' c = ev c)
          \<and> (\<exists>d''. getById example_engine example_id d'
                     = (Inr \<lparr> statusCode = 200, body = Entity (viewed ev') ''event'' \<rparr>,
                        d'')))"
proof (rule conjI)
  from one_job_hit have v: "isValidUUID example_id" by simp
  from one_job_hit obtain w where
    w: "find (has_id (toLowerCase example_id)) (work_rows one_job) = Some w
        \<and> find (has_id (toLowerCase example_id)) (event_rows one_job) = None"
    by (auto split: option.splits)
  note t = delete_is_hard_for_work_and_soft_for_events [OF v, of one_job example_engine]
  show "\<exists>d'. opportunityController_delete example_engine example_id one_job
            = (Inr \<lparr> statusCode = 204, body = NoBody \<rparr>, d')
        \<and> find (has_id (toLowerCase example_id)) (work_rows d') = None
        \<and> event_rows d' = event_rows one_job
        \<and> (\<exists>d''. getById example_engine example_id d'
                   = (Inr \<lparr> statusCode = 404, body = Failure ''Opportunity not found'' \<rparr>,
                      d''))"
    by (rule mp [OF spec [OF conjunct1 [OF t]] w])
next
  from one_job_hit have v: "isValidUUID example_id" by simp
  from one_hackathon_hit obtain ev where
    ev: "find (has_id (toLowerCase example_id)) (work_rows one_hackathon) = None
         \<and> find (has_id (toLowerCase example_id)) (event_rows one_hackathon) = Some ev
         \<and> constraint_error opportunities_event ev = None
         \<and> (\<forall>n. ev ''view_count'' = CInt n \<longrightarrow> n < 2147483647)"
    by (auto split: option.splits)
  note t = delete_is_hard_for_work_and_soft_for_events [OF v, of one_hackathon example_engine]
  show "\<exists>ev d' ev'. opportunityController_delete example_engine example_id one_hackathon
                = (Inr \<lparr> statusCode = 204, body = NoBody \<rparr>, d')
          \<and> work_rows d' = work_rows one_hackathon
          \<and> length (event_rows d') = length (event_rows one_hackathon)
          \<and> find (has_id (toLowerCase example_id)) (event_rows d') = Some ev'
          \<and> ev' ''status'' = CText ''archived''
          \<and> (\<forall>c. c \<noteq> ''status'' \<and> c \<noteq> ''updated_at'' \<longrightarrow> ev' c = ev c)
          \<and> (\<exists>d''. getById example_engine example_id d'
                     = (Inr \<lparr> statusCode = 200, body = Entity (viewed ev') ''event'' \<rparr>,
                        d''))"
    by (rule exI [of _ ev]) (rule mp [OF spec [OF conjunct2 [OF t]] ev])
qed

section \<open>Patch without an updatable field\<close>

lemma update_event_hit:
  assumes "isValidUUID ident"
    and "find (has_id (toLowerCase ident)) (work_rows d) = None"
    and "find (has_id (toLowerCase ident)) (event_rows d) = Some ev"
    and "\<not> truthy (field (map_of updates) ''work_type'')"
    and "\<not> truthy (field (map_of updates) ''event_type'')"
  shows "opportunityController_update eng ident updates d
           = respond_updated eng opportunities_event ident updates (issued (issued d))"
  using assms by (simp add: opportunityController_update_def findById_valid)

lemma respond_updated_no_valid_fields:
  "setClause updates = [] \<Longrightarrow>
   respond_updated eng tbl ident updates d = (Inl (Error ''No valid fields to update''), d)"
  by (simp add: respond_updated_def update_no_valid_fields)

lemma list_ex_find: "list_ex P rs \<Longrightarrow> \<exists>x. find P rs = Some x"
  by (induction rs) auto

text \<open>
  Claim C10. When the body of a patch has no property on the allow-list, \<open>update\<close> throws
  the error \<open>No valid fields to update\<close> and the storage state is the one it was given,
  whether or not a row has the identifier. Through the handler (a well-formed identifier
  that some store holds, and no type property in the body) the same error is thrown and
  the rows of both stores are as before.
\<close>

theorem patch_without_allowed_field_throws:
  assumes "\<forall>(f, v) \<in> set updates. f \<notin> set allowedFields"
  shows "update eng tbl ident updates d = (Inl (Error ''No valid fields to update''), d)
       \<and> (isValidUUID ident
            \<and> \<not> truthy (field (map_of updates) ''work_type'')
            \<and> \<not> truthy (field (map_of updates) ''event_type'')
            \<and> (list_ex (has_id (toLowerCase ident)) (work_rows d)
                \<or> list_ex (has_id (toLowerCase ident)) (event_rows d)) \<longrightarrow>
          (\<exists>d'. opportunityController_update eng ident updates d
                   = (Inl (Error ''No valid fields to update''), d')
               \<and> work_rows d' = work_rows d \<and> event_rows d' = event_rows d))"
proof (intro conjI impI)
  from assms have none: "setClause updates = []" by (rule setClause_none_allowed)
  show "update eng tbl ident updates d = (Inl (Error ''No valid fields to update''), d)"
    by (rule update_no_valid_fields [OF none])
  assume h: "isValidUUID ident
            \<and> \<not> truthy (field (map_of updates) ''work_type'')
            \<and> \<not> truthy (field (map_of updates) ''event_type'')
            \<and> (list_ex (has_id (toLowerCase ident)) (work_rows d)
                \<or> list_ex (has_id (toLowerCase ident)) (event_rows d))"
  show "\<exists>d'. opportunityController_update eng ident updates d
                   = (Inl (Error ''No valid fields to update''), d')
               \<and> work_rows d' = work_rows d \<and> event_rows d' = event_rows d"
  proof (cases "find (has_id (toLowerCase ident)) (work_rows d)")
    case (Some w)
    have "opportunityController_update eng ident updates d
            = (Inl (Error ''No valid fields to update''), issued d)"
      using update_work_hit [of ident d w updates eng] h Some
      by (simp add: respond_updated_no_valid_fields [OF none])
    then show ?thesis by simp
  next
    case None
    with h have "list_ex (has_id (toLowerCase ident)) (event_rows d)"
      by (auto simp: find_None_iff list_ex_iff)
    then obtain ev where ev: "find (has_id (toLowerCase ident)) (event_rows d) = Some ev"
      by (auto dest: list_ex_find)
    have "opportunityController_update eng ident updates d
            = (Inl (Error ''No valid fields to update''), issued (issued d))"
      using update_event_hit [of ident d ev updates eng] h None ev
      by (simp add: respond_updated_no_valid_fields [OF none])
    then show ?thesis by simp
  qed
qed

lemma one_job_listed:
  "list_ex (has_id (toLowerCase example_id)) (work_rows one_job)
   \<and> \<not> truthy (field (map_of [(''view_count'', JNum 7), (''id'', JStr ''x'')]) ''work_type'')
   \<and> \<not> truthy (field (map_of [(''view_count'', JNum 7), (''id'', JStr ''x'')]) ''event_type'')
   \<and> list_all (\<lambda>(f, v). f \<notin> set allowedFields) [(''view_count'', JNum 7), (''id'', JStr ''x'')]"
  by code_simp

theorem patch_without_allowed_field_throws_witness:
  "\<exists>d'. opportunityController_update example_engine example_id
           [(''view_count'', JNum 7), (''id'', JStr ''x'')] one_job
         = (Inl (Error ''No valid fields to update''), d')
       \<and> work_rows d' = work_rows one_job \<and> event_rows d' = event_rows one_job"
proof -
  from one_job_listed
  have a: "\<forall>(f, v) \<in> set [(''view_count'', JNum 7), (''id'', JStr ''x'')]. f \<notin> set allowedFields"
    by (simp add: list_all_iff)
  from patch_without_allowed_field_throws [OF a, of example_engine opportunities_work example_id one_job]
    one_job_hit one_job_listed
  show ?thesis by blast
qed

section \<open>Upsert Engine\<close>

lemma exec_upsert_cases:
  assumes "exec_upsert eng tbl bound oc d = (Inr r, d')"
  shows "\<exists>cs p. bind_columns eng tbl bound = Inr cs
           \<and> p = assign cs (default_row (now_at eng (queries d)) (uuid_at eng (queries d)))
           \<and> ((find (same_key tbl p) (rows_of tbl d) = None
                \<and> r = \<lparr> entity = p, action = ''created'' \<rparr>
                \<and> d' = set_rows tbl (rows_of tbl d @ [p]) (issued d))
              \<or> (\<exists>old. find (same_key tbl p) (rows_of tbl d) = Some old
                    \<and> r = \<lparr> entity = oc (now_at eng (queries d)) old p, action = ''updated'' \<rparr>
                    \<and> d' = set_rows tbl
                             (replace_first (same_key tbl p) (oc (now_at eng (queries d)) old p)
                                (rows_of tbl d)) (issued d)))"
  using assms
  by (auto simp: exec_upsert_def Let_def split: sum.splits option.splits if_splits)

lemma same_key_cong:
  "a (typeField tbl) = b (typeField tbl) \<Longrightarrow> a ''apply_url'' = b ''apply_url'' \<Longrightarrow>
   same_key tbl a = same_key tbl b"
  by (simp add: same_key_def fun_eq_iff)

lemma exec_upsert_entity_key:
  assumes "exec_upsert eng tbl bound oc d = (Inr r, d')" and "keeps_key tbl oc"
  shows "\<exists>cs p. bind_columns eng tbl bound = Inr cs
           \<and> p = assign cs (default_row (now_at eng (queries d)) (uuid_at eng (queries d)))
           \<and> entity r (typeField tbl) = p (typeField tbl)
           \<and> entity r ''apply_url'' = p ''apply_url''"
proof -
  from exec_upsert_cases [OF assms(1)] obtain cs p where
    b: "bind_columns eng tbl bound = Inr cs"
    and p: "p = assign cs (default_row (now_at eng (queries d)) (uuid_at eng (queries d)))"
    and c: "(find (same_key tbl p) (rows_of tbl d) = None
                \<and> r = \<lparr> entity = p, action = ''created'' \<rparr>
                \<and> d' = set_rows tbl (rows_of tbl d @ [p]) (issued d))
              \<or> (\<exists>old. find (same_key tbl p) (rows_of tbl d) = Some old
                    \<and> r = \<lparr> entity = oc (now_at eng (queries d)) old p, action = ''updated'' \<rparr>
                    \<and> d' = set_rows tbl
                             (replace_first (same_key tbl p) (oc (now_at eng (queries d)) old p)
                                (rows_of tbl d)) (issued d))"
    by blast
  from c have "entity r (typeField tbl) = p (typeField tbl) \<and> entity r ''apply_url'' = p ''apply_url''"
  proof
    assume "find (same_key tbl p) (rows_of tbl d) = None
                \<and> r = \<lparr> entity = p, action = ''created'' \<rparr>
                \<and> d' = set_rows tbl (rows_of tbl d @ [p]) (issued d)"
    then show ?thesis by simp
  next
    assume "\<exists>old. find (same_key tbl p) (rows_of tbl d) = Some old
                    \<and> r = \<lparr> entity = oc (now_at eng (queries d)) old p, action = ''updated'' \<rparr>
                    \<and> d' = set_rows tbl
                             (replace_first (same_key tbl p) (oc (now_at eng (queries d)) old p)
                                (rows_of tbl d)) (issued d)"
    then obtain old where o: "find (same_key tbl p) (rows_of tbl d) = Some old"
      and r: "r = \<lparr> entity = oc (now_at eng (queries d)) old p, action = ''updated'' \<rparr>"
      by blast
    from find_Some_holds [OF o] have "same_key tbl p old" .
    then have "old (typeField tbl) = p (typeField tbl) \<and> old ''apply_url'' = p ''apply_url''"
      by (simp add: same_key_def)
    with assms(2) r show ?thesis by (simp add: keeps_key_def)
  qed
  with b p show ?thesis by blast
qed

lemma exec_upsert_conflict:
  assumes "exec_upsert eng tbl bound oc d = (Inr r, d')" and "keeps_key tbl oc"
    and "find (same_key tbl (entity r)) (rows_of tbl d) = Some old"
  shows "\<exists>p. r = \<lparr> entity = oc (now_at eng (queries d)) old p, action = ''updated'' \<rparr>
           \<and> d' = set_rows tbl
                    (replace_first (same_key tbl (entity r)) (entity r) (rows_of tbl d)) (issued d)"
proof -
  from exec_upsert_entity_key [OF assms(1,2)] obtain cs p where
    b: "bind_columns eng tbl bound = Inr cs"
    and p: "p = assign cs (default_row (now_at eng (queries d)) (uuid_at eng (queries d)))"
    and k: "entity r (typeField tbl) = p (typeField tbl)" "entity r ''apply_url'' = p ''apply_url''"
    by blast
  have sk: "same_key tbl (entity r) = same_key tbl p" by (rule same_key_cong [OF k])
  from exec_upsert_cases [OF assms(1)] b p assms(3) sk
  show ?thesis by auto
qed

lemma exec_upsert_fresh:
  assumes "exec_upsert eng tbl bound oc d = (Inr r, d')" and "keeps_key tbl oc"
    and "find (same_key tbl (entity r)) (rows_of tbl d) = None"
  shows "action r = ''created''
       \<and> d' = set_rows tbl (rows_of tbl d @ [entity r]) (issued d)"
proof -
  from exec_upsert_entity_key [OF assms(1,2)] obtain cs p where
    b: "bind_columns eng tbl bound = Inr cs"
    and p: "p = assign cs (default_row (now_at eng (queries d)) (uuid_at eng (queries d)))"
    and k: "entity r (typeField tbl) = p (typeField tbl)" "entity r ''apply_url'' = p ''apply_url''"
    by blast
  have sk: "same_key tbl (entity r) = same_key tbl p" by (rule same_key_cong [OF k])
  from exec_upsert_cases [OF assms(1)] b p assms(3) sk
  show ?thesis by auto
qed

lemma work_keeps_key: "keeps_key opportunities_work work_on_conflict"
  by (simp add: keeps_key_def work_on_conflict_def)

lemma event_keeps_key: "keeps_key opportunities_event event_on_conflict"
  by (simp add: keeps_key_def event_on_conflict_def)

lemma work_create_conflict:
  assumes "WorkOpportunityModel_create eng opp ty d = (Inr r, d')"
    and "find (same_key opportunities_work (entity r)) (work_rows d) = Some old"
  shows "\<exists>p. r = \<lparr> entity = work_on_conflict (now_at eng (queries d)) old p,
                   action = ''updated'' \<rparr>
           \<and> d' = set_rows opportunities_work
                    (replace_first (same_key opportunities_work (entity r)) (entity r)
                       (work_rows d)) (issued d)"
  using exec_upsert_conflict [OF assms(1) [unfolded WorkOpportunityModel_create_def]
          work_keeps_key] assms(2)
  by simp

lemma event_create_conflict:
  assumes "EventOpportunityModel_create eng opp ty d = (Inr r, d')"
    and "find (same_key opportunities_event (entity r)) (event_rows d) = Some old"
  shows "\<exists>p. r = \<lparr> entity = event_on_conflict (now_at eng (queries d)) old p,
                   action = ''updated'' \<rparr>
           \<and> d' = set_rows opportunities_event
                    (replace_first (same_key opportunities_event (entity r)) (entity r)
                       (event_rows d)) (issued d)"
  using exec_upsert_conflict [OF assms(1) [unfolded EventOpportunityModel_create_def]
          event_keeps_key] assms(2)
  by simp

lemma same_key_refl: "same_key tbl a a"
  by (simp add: same_key_def)

text \<open>
  Claim C2. When \<open>create\<close> finds a stored row with the same (type, apply_url) pair, the
  result is tagged \<open>updated\<close> and its status is \<open>active\<close> if the stored status was
  \<open>expired\<close> (work store), respectively \<open>expired\<close> or \<open>archived\<close> (event store), and
  the stored status in every other case, \<open>active\<close> included. The row returned is the row
  now stored under the pair.
\<close>

theorem conflict_path_revives_status:
  "(WorkOpportunityModel_create eng opp ty d = (Inr r, d')
      \<and> find (same_key opportunities_work (entity r)) (work_rows d) = Some old \<longrightarrow>
    action r = ''updated''
    \<and> entity r ''status''
        = (if old ''status'' = CText ''expired'' then CText ''active'' else old ''status'')
    \<and> find (same_key opportunities_work (entity r)) (work_rows d') = Some (entity r))
   \<and> (EventOpportunityModel_create eng opp ty d = (Inr r, d')
      \<and> find (same_key opportunities_event (entity r)) (event_rows d) = Some old \<longrightarrow>
    action r = ''updated''
    \<and> entity r ''status''
        = (if old ''status'' = CText ''expired'' \<or> old ''status'' = CText ''archived''
           then CText ''active'' else old ''status'')
    \<and> find (same_key opportunities_event (entity r)) (event_rows d') = Some (entity r))"
proof (intro conjI impI)
  assume h: "WorkOpportunityModel_create eng opp ty d = (Inr r, d')
      \<and> find (same_key opportunities_work (entity r)) (work_rows d) = Some old"
  from work_create_conflict [of eng opp ty d r d' old] h obtain p where
    r: "r = \<lparr> entity = work_on_conflict (now_at eng (queries d)) old p, action = ''updated'' \<rparr>"
    and d': "d' = set_rows opportunities_work
                    (replace_first (same_key opportunities_work (entity r)) (entity r)
                       (work_rows d)) (issued d)"
    by blast
  from r show "action r = ''updated''" by simp
  from r show "entity r ''status''
        = (if old ''status'' = CText ''expired'' then CText ''active'' else old ''status'')"
    by (simp add: work_on_conflict_def)
  from h have f: "find (same_key opportunities_work (entity r)) (work_rows d) = Some old" by simp
  show "find (same_key opportunities_work (entity r)) (work_rows d') = Some (entity r)"
    unfolding d' using find_replace_first [OF f same_key_refl] by simp
next
  assume h: "EventOpportunityModel_create eng opp ty d = (Inr r, d')
      \<and> find (same_key opportunities_event (entity r)) (event_rows d) = Some old"
  from event_create_conflict [of eng opp ty d r d' old] h obtain p where
    r: "r = \<lparr> entity = event_on_conflict (now_at eng (queries d)) old p, action = ''updated'' \<rparr>"
    and d': "d' = set_rows opportunities_event
                    (replace_first (same_key opportunities_event (entity r)) (entity r)
                       (event_rows d)) (issued d)"
    by blast
  from r show "action r = ''updated''" by simp
  from r show "entity r ''status''
        = (if old ''status'' = CText ''expired'' \<or> old ''status'' = CText ''archived''
           then CText ''active'' else old ''status'')"
    by (simp add: event_on_conflict_def)
  from h have f: "find (same_key opportunities_event (entity r)) (event_rows d) = Some old" by simp
  show "find (same_key opportunities_event (entity r)) (event_rows d') = Some (entity r)"
    unfolding d' using find_replace_first [OF f same_key_refl] by simp
qed

text \<open>
  Claim C8. On the conflict path the returned (and stored) row has the discriminator,
  \<open>apply_url\<close>, \<open>is_verified\<close>, \<open>is_featured\<close>, \<open>external_id\<close> and \<open>source\<close> of the
  row that was stored before, whatever the incoming payload carries; so has its identifier.
\<close>

theorem conflict_path_keeps_identity_and_flags:
  "(WorkOpportunityModel_create eng opp ty d = (Inr r, d')
      \<and> find (same_key opportunities_work (entity r)) (work_rows d) = Some old \<longrightarrow>
    entity r ''work_type'' = old ''work_type''
    \<and> entity r ''apply_url'' = old ''apply_url''
    \<and> entity r ''is_verified'' = old ''is_verified''
    \<and> entity r ''is_featured'' = old ''is_featured''
    \<and> entity r ''external_id'' = old ''external_id''
    \<and> entity r ''source'' = old ''source''
    \<and> entity r ''id'' = old ''id''
    \<and> find (same_key opportunities_work (entity r)) (work_rows d') = Some (entity r))
   \<and> (EventOpportunityModel_create eng opp ty d = (Inr r, d')
      \<and> find (same_key opportunities_event (entity r)) (event_rows d) = Some old \<longrightarrow>
    entity r ''event_type'' = old ''event_type''
    \<and> entity r ''apply_url'' = old ''apply_url''
    \<and> entity r ''is_verified'' = old ''is_verified''
    \<and> entity r ''is_featured'' = old ''is_featured''
    \<and> entity r ''external_id'' = old ''external_id''
    \<and> entity r ''source'' = old ''source''
    \<and> entity r ''id'' = old ''id''
    \<and> find (same_key opportunities_event (entity r)) (event_rows d') = Some (entity r))"
proof (intro conjI impI)
  assume h: "WorkOpportunityModel_create eng opp ty d = (Inr r, d')
      \<and> find (same_key opportunities_work (entity r)) (work_rows d) = Some old"
  from work_create_conflict [of eng opp ty d r d' old] h obtain p where
    r: "r = \<lparr> entity = work_on_conflict (now_at eng (queries d)) old p, action = ''updated'' \<rparr>"
    and d': "d' = set_rows opportunities_work
                    (replace_first (same_key opportunities_work (entity r)) (entity r)
                       (work_rows d)) (issued d)"
    by blast
  from r show "entity r ''work_type'' = old ''work_type''" by (simp add: work_on_conflict_def)
  from r show "entity r ''apply_url'' = old ''apply_url''" by (simp add: work_on_conflict_def)
  from r show "entity r ''is_verified'' = old ''is_verified''" by (simp add: work_on_conflict_def)
  from r show "entity r ''is_featured'' = old ''is_featured''" by (simp add: work_on_conflict_def)
  from r show "entity r ''external_id'' = old ''external_id''" by (simp add: work_on_conflict_def)
  from r show "entity r ''source'' = old ''source''" by (simp add: work_on_conflict_def)
  from r show "entity r ''id'' = old ''id''" by (simp add: work_on_conflict_def)
  from h have f: "find (same_key opportunities_work (entity r)) (work_rows d) = Some old" by simp
  show "find (same_key opportunities_work (entity r)) (work_rows d') = Some (entity r)"
    unfolding d' using find_replace_first [OF f same_key_refl] by simp
next
  assume h: "EventOpportunityModel_create eng opp ty d = (Inr r, d')
      \<and> find (same_key opportunities_event (entity r)) (event_rows d) = Some old"
  from event_create_conflict [of eng opp ty d r d' old] h obtain p where
    r: "r = \<lparr> entity = event_on_conflict (now_at eng (queries d)) old p, action = ''updated'' \<rparr>"
    and d': "d' = set_rows opportunities_event
                    (replace_first (same_key opportunities_event (entity r)) (entity r)
                       (event_rows d)) (issued d)"
    by blast
  from r show "entity r ''event_type'' = old ''event_type''" by (simp add: event_on_conflict_def)
  from r show "entity r ''apply_url'' = old ''apply_url''" by (simp add: event_on_conflict_def)
  from r show "entity r ''is_verified'' = old ''is_verified''" by (simp add: event_on_conflict_def)
  from r show "entity r ''is_featured'' = old ''is_featured''" by (simp add: event_on_conflict_def)
  from r show "entity r ''external_id'' = old ''external_id''" by (simp add: event_on_conflict_def)
  from r show "entity r ''source'' = old ''source''" by (simp add: event_on_conflict_def)
  from r show "entity r ''id'' = old ''id''" by (simp add: event_on_conflict_def)
  from h have f: "find (same_key opportunities_event (entity r)) (event_rows d) = Some old" by simp
  show "find (same_key opportunities_event (entity r)) (event_rows d') = Some (entity r)"
    unfolding d' using find_replace_first [OF f same_key_refl] by simp
qed


section \<open>Upserting the same pair twice\<close>

lemma cast_all_lookup:
  "cast_all eng tbl bound = Inr cs \<Longrightarrow> (c, v) \<in> set bound \<Longrightarrow>
   \<exists>ty x. map_of (columns tbl) c = Some ty \<and> cast eng ty v = Inr x \<and> (c, x) \<in> set cs"
proof (induction bound arbitrary: cs)
  case Nil
  then show ?case by simp
next
  case (Cons b bound)
  obtain c0 v0 where b: "b = (c0, v0)" by (cases b)
  from Cons.prems(1) b obtain ty x xs where
    ty: "map_of (columns tbl) c0 = Some ty" and x: "cast eng ty v0 = Inr x"
    and xs: "cast_all eng tbl bound = Inr xs" and cs: "cs = (c0, x) # xs"
    by (auto split: option.splits sum.splits)
  show ?case
  proof (cases "(c, v) = (c0, v0)")
    case True
    with ty x cs show ?thesis by auto
  next
    case False
    with Cons.prems(2) b have "(c, v) \<in> set bound" by auto
    from Cons.IH [OF xs this] cs show ?thesis by auto
  qed
qed

lemma cast_all_keys: "cast_all eng tbl bound = Inr cs \<Longrightarrow> map fst cs = map fst bound"
proof (induction bound arbitrary: cs)
  case Nil
  then show ?case by simp
next
  case (Cons b bound)
  obtain c0 v0 where b: "b = (c0, v0)" by (cases b)
  from Cons.prems b obtain x xs where
    xs: "cast_all eng tbl bound = Inr xs" and cs: "cs = (c0, x) # xs"
    by (auto split: option.splits sum.splits)
  from Cons.IH [OF xs] cs b show ?case by simp
qed

lemma assign_other: "c \<notin> fst ` set cs \<Longrightarrow> assign cs r c = r c"
  by (induction cs arbitrary: r) auto

lemma assign_lookup: "distinct (map fst cs) \<Longrightarrow> (c, x) \<in> set cs \<Longrightarrow> assign cs r c = x"
proof (induction cs arbitrary: r)
  case Nil
  then show ?case by simp
next
  case (Cons a cs)
  obtain c0 x0 where a: "a = (c0, x0)" by (cases a)
  show ?case
  proof (cases "(c, x) = (c0, x0)")
    case True
    with Cons.prems(1) a have "c \<notin> fst ` set cs" by auto
    with True a show ?thesis by (simp add: assign_other)
  next
    case False
    with Cons.prems a have "(c, x) \<in> set cs" "distinct (map fst cs)" by auto
    from Cons.IH [OF this(2) this(1)] a show ?thesis by simp
  qed
qed

lemma bind_columns_lookup:
  assumes "bind_columns eng tbl bound = Inr cs" and "distinct (map fst bound)"
    and "(c, v) \<in> set bound"
  shows "\<exists>ty. map_of (columns tbl) c = Some ty \<and> cast eng ty v = Inr (assign cs r0 c)"
proof -
  from assms(1) have ca: "cast_all eng tbl bound = Inr cs"
    by (simp add: bind_columns_def split: if_splits)
  from cast_all_lookup [OF ca assms(3)] obtain ty x where
    ty: "map_of (columns tbl) c = Some ty" and x: "cast eng ty v = Inr x" and m: "(c, x) \<in> set cs"
    by blast
  from cast_all_keys [OF ca] assms(2) have "distinct (map fst cs)" by simp
  from assign_lookup [OF this m] ty x show ?thesis by simp
qed

lemma exec_upsert_key_cast:
  assumes "exec_upsert eng tbl bound oc d = (Inr r, d')" and "keeps_key tbl oc"
    and "distinct (map fst bound)"
    and "(typeField tbl, ty) \<in> set bound" and "(''apply_url'', url) \<in> set bound"
  shows "\<exists>t1 t2. map_of (columns tbl) (typeField tbl) = Some t1
             \<and> cast eng t1 ty = Inr (entity r (typeField tbl))
             \<and> map_of (columns tbl) ''apply_url'' = Some t2
             \<and> cast eng t2 url = Inr (entity r ''apply_url'')"
proof -
  from exec_upsert_entity_key [OF assms(1,2)] obtain cs p where
    b: "bind_columns eng tbl bound = Inr cs"
    and p: "p = assign cs (default_row (now_at eng (queries d)) (uuid_at eng (queries d)))"
    and k: "entity r (typeField tbl) = p (typeField tbl)" "entity r ''apply_url'' = p ''apply_url''"
    by blast
  from bind_columns_lookup [OF b assms(3,4)] bind_columns_lookup [OF b assms(3,5)] p k
  show ?thesis by simp
qed

lemma create_key_cast:
  assumes "create tbl eng opp ty d = (Inr r, d')"
  shows "\<exists>t1 t2. map_of (columns tbl) (typeField tbl) = Some t1
             \<and> cast eng t1 ty = Inr (entity r (typeField tbl))
             \<and> map_of (columns tbl) ''apply_url'' = Some t2
             \<and> cast eng t2 (field opp ''apply_url'') = Inr (entity r ''apply_url'')"
proof (cases tbl)
  case opportunities_work
  with assms have e: "WorkOpportunityModel_create eng opp ty d = (Inr r, d')" by simp
  show ?thesis
    unfolding opportunities_work
    by (rule exec_upsert_key_cast [OF e [unfolded WorkOpportunityModel_create_def]
          work_keeps_key]) simp_all
next
  case opportunities_event
  with assms have e: "EventOpportunityModel_create eng opp ty d = (Inr r, d')" by simp
  show ?thesis
    unfolding opportunities_event
    by (rule exec_upsert_key_cast [OF e [unfolded EventOpportunityModel_create_def]
          event_keeps_key]) simp_all
qed

lemma create_conflict:
  assumes "create tbl eng opp ty d = (Inr r, d')"
    and "find (same_key tbl (entity r)) (rows_of tbl d) = Some old"
  shows "action r = ''updated''
       \<and> same_key tbl (entity r) (entity r)
       \<and> d' = set_rows tbl
                 (replace_first (same_key tbl (entity r)) (entity r) (rows_of tbl d)) (issued d)"
proof (cases tbl)
  case opportunities_work
  with assms have e: "WorkOpportunityModel_create eng opp ty d = (Inr r, d')" by simp
  from exec_upsert_conflict [OF e [unfolded WorkOpportunityModel_create_def] work_keeps_key]
    assms(2) opportunities_work
  show ?thesis by (auto simp: same_key_refl)
next
  case opportunities_event
  with assms have e: "EventOpportunityModel_create eng opp ty d = (Inr r, d')" by simp
  from exec_upsert_conflict [OF e [unfolded EventOpportunityModel_create_def] event_keeps_key]
    assms(2) opportunities_event
  show ?thesis by (auto simp: same_key_refl)
qed

lemma create_fresh:
  assumes "create tbl eng opp ty d = (Inr r, d')"
    and "find (same_key tbl (entity r)) (rows_of tbl d) = None"
  shows "action r = ''created''
       \<and> d' = set_rows tbl (rows_of tbl d @ [entity r]) (issued d)"
proof (cases tbl)
  case opportunities_work
  with assms have e: "WorkOpportunityModel_create eng opp ty d = (Inr r, d')" by simp
  from exec_upsert_fresh [OF e [unfolded WorkOpportunityModel_create_def] work_keeps_key]
    assms(2) opportunities_work
  show ?thesis by simp
next
  case opportunities_event
  with assms have e: "EventOpportunityModel_create eng opp ty d = (Inr r, d')" by simp
  from exec_upsert_fresh [OF e [unfolded EventOpportunityModel_create_def] event_keeps_key]
    assms(2) opportunities_event
  show ?thesis by simp
qed

lemma find_append_last:
  "find P xs = None \<Longrightarrow> P y \<Longrightarrow> find P (xs @ [y]) = Some y"
  by (induction xs) (auto split: if_splits)

lemma replace_first_append_last:
  "find P xs = None \<Longrightarrow> P y \<Longrightarrow> replace_first P new (xs @ [y]) = xs @ [new]"
  by (induction xs) (auto split: if_splits)

lemma filter_none: "find P xs = None \<Longrightarrow> filter P xs = []"
  by (induction xs) (auto split: if_splits)

lemma queries_set_rows [simp]: "queries (set_rows tbl rs d) = queries d"
  by (cases tbl) simp_all

lemma queries_issued [simp]: "queries (issued d) = Suc (queries d)"
  by (simp add: issued_def)

text \<open>
  Claim C3. In a store that holds no row for a (type, apply_url) pair, two successful calls
  of \<open>create\<close> with that pair leave exactly one row for it (the store has grown by one
  row); the first result is tagged \<open>created\<close>, the second \<open>updated\<close>; and each call has
  sent exactly one statement to the engine, so no separate existence query is made.
\<close>

theorem create_twice_stores_one_row:
  assumes first: "create tbl eng opp1 ty d = (Inr r1, d1)"
    and second: "create tbl eng opp2 ty d1 = (Inr r2, d2)"
    and same_url: "field opp2 ''apply_url'' = field opp1 ''apply_url''"
    and fresh: "find (same_key tbl (entity r1)) (rows_of tbl d) = None"
  shows "action r1 = ''created''
       \<and> action r2 = ''updated''
       \<and> length (filter (same_key tbl (entity r1)) (rows_of tbl d2)) = 1
       \<and> length (rows_of tbl d2) = length (rows_of tbl d) + 1
       \<and> queries d1 = queries d + 1
       \<and> queries d2 = queries d1 + 1"
proof -
  from create_fresh [OF first fresh] have
    a1: "action r1 = ''created''"
    and d1: "d1 = set_rows tbl (rows_of tbl d @ [entity r1]) (issued d)"
    by simp_all
  from create_key_cast [OF first] create_key_cast [OF second] same_url
  have k: "entity r2 (typeField tbl) = entity r1 (typeField tbl)"
          "entity r2 ''apply_url'' = entity r1 ''apply_url''"
    by auto
  have sk: "same_key tbl (entity r2) = same_key tbl (entity r1)"
    by (rule same_key_cong [OF k])
  have rows1: "rows_of tbl d1 = rows_of tbl d @ [entity r1]" by (simp add: d1)
  have hit: "find (same_key tbl (entity r2)) (rows_of tbl d1) = Some (entity r1)"
    unfolding sk rows1 by (rule find_append_last [OF fresh same_key_refl])
  from create_conflict [OF second hit] have
    a2: "action r2 = ''updated''"
    and d2: "d2 = set_rows tbl
                 (replace_first (same_key tbl (entity r2)) (entity r2) (rows_of tbl d1))
                 (issued d1)"
    by simp_all
  have rows2: "rows_of tbl d2 = rows_of tbl d @ [entity r2]"
    unfolding d2 sk rows1
    by (simp add: replace_first_append_last [OF fresh same_key_refl])
  have one: "filter (same_key tbl (entity r1)) (rows_of tbl d2) = [entity r2]"
    unfolding rows2 using k by (simp add: filter_none [OF fresh] same_key_def)
  show ?thesis
    using a1 a2 one rows2 by (simp add: d1 d2)
qed


section \<open>The upsert at concrete stores\<close>

lemma stale_job_resubmitted:
  "(case WorkOpportunityModel_create example_engine job_again (JStr ''job'') stale_store of
      (Inr r, d') \<Rightarrow>
        entity r ''work_type'' = CText ''job''
        \<and> entity r ''apply_url'' = CText ''https://jobs.example/1''
    | (Inl e, d') \<Rightarrow> False)
   \<and> (case find (\<lambda>x. x ''work_type'' = CText ''job''
                     \<and> x ''apply_url'' = CText ''https://jobs.example/1'')
              (work_rows stale_store) of
         Some old \<Rightarrow>
           old ''status'' = CText ''expired'' \<and> old ''is_verified'' = CBool True
           \<and> old ''is_featured'' = CBool False \<and> old ''source'' = CText ''scraper''
           \<and> old ''external_id'' = CText ''ext-1''
       | None \<Rightarrow> False)"
  by code_simp

lemma stale_hackathon_resubmitted:
  "(case EventOpportunityModel_create example_engine hackathon_again (JStr ''hackathon'')
           stale_store of
      (Inr r, d') \<Rightarrow>
        entity r ''event_type'' = CText ''hackathon''
        \<and> entity r ''apply_url'' = CText ''https://events.example/1''
    | (Inl e, d') \<Rightarrow> False)
   \<and> (case find (\<lambda>x. x ''event_type'' = CText ''hackathon''
                     \<and> x ''apply_url'' = CText ''https://events.example/1'')
              (event_rows stale_store) of
         Some old \<Rightarrow>
           old ''status'' = CText ''archived'' \<and> old ''is_verified'' = CBool False
           \<and> old ''is_featured'' = CBool True \<and> old ''source'' = CText ''scraper''
       | None \<Rightarrow> False)"
  by code_simp

lemma stale_job_conflict:
  "\<exists>r d' old.
     WorkOpportunityModel_create example_engine job_again (JStr ''job'') stale_store = (Inr r, d')
     \<and> find (same_key opportunities_work (entity r)) (work_rows stale_store) = Some old
     \<and> old ''status'' = CText ''expired'' \<and> old ''is_verified'' = CBool True
     \<and> old ''is_featured'' = CBool False \<and> old ''source'' = CText ''scraper''
     \<and> old ''external_id'' = CText ''ext-1''"
proof -
  from stale_job_resubmitted obtain r d' where
    e: "WorkOpportunityModel_create example_engine job_again (JStr ''job'') stale_store
          = (Inr r, d')"
    and k: "entity r ''work_type'' = CText ''job''"
           "entity r ''apply_url'' = CText ''https://jobs.example/1''"
    by (auto split: prod.splits sum.splits)
  have sk: "same_key opportunities_work (entity r)
              = (\<lambda>x. x ''work_type'' = CText ''job''
                     \<and> x ''apply_url'' = CText ''https://jobs.example/1'')"
    by (simp add: same_key_def fun_eq_iff k)
  from stale_job_resubmitted obtain old where
    "find (same_key opportunities_work (entity r)) (work_rows stale_store) = Some old
     \<and> old ''status'' = CText ''expired'' \<and> old ''is_verified'' = CBool True
     \<and> old ''is_featured'' = CBool False \<and> old ''source'' = CText ''scraper''
     \<and> old ''external_id'' = CText ''ext-1''"
    unfolding sk by (auto split: option.splits)
  with e show ?thesis by blast
qed

lemma stale_hackathon_conflict:
  "\<exists>r d' old.
     EventOpportunityModel_create example_engine hackathon_again (JStr ''hackathon'') stale_store
       = (Inr r, d')
     \<and> find (same_key opportunities_event (entity r)) (event_rows stale_store) = Some old
     \<and> old ''status'' = CText ''archived'' \<and> old ''is_verified'' = CBool False
     \<and> old ''is_featured'' = CBool True \<and> old ''source'' = CText ''scraper''"
proof -
  from stale_hackathon_resubmitted obtain r d' where
    e: "EventOpportunityModel_create example_engine hackathon_again (JStr ''hackathon'')
          stale_store = (Inr r, d')"
    and k: "entity r ''event_type'' = CText ''hackathon''"
           "entity r ''apply_url'' = CText ''https://events.example/1''"
    by (auto split: prod.splits sum.splits)
  have sk: "same_key opportunities_event (entity r)
              = (\<lambda>x. x ''event_type'' = CText ''hackathon''
                     \<and> x ''apply_url'' = CText ''https://events.example/1'')"
    by (simp add: same_key_def fun_eq_iff k)
  from stale_hackathon_resubmitted obtain old where
    "find (same_key opportunities_event (entity r)) (event_rows stale_store) = Some old
     \<and> old ''status'' = CText ''archived'' \<and> old ''is_verified'' = CBool False
     \<and> old ''is_featured'' = CBool True \<and> old ''source'' = CText ''scraper''"
    unfolding sk by (auto split: option.splits)
  with e show ?thesis by blast
qed

theorem conflict_path_revives_status_witness:
  "(\<exists>r d' old.
      WorkOpportunityModel_create example_engine job_again (JStr ''job'') stale_store
        = (Inr r, d')
      \<and> find (same_key opportunities_work (entity r)) (work_rows stale_store) = Some old
      \<and> old ''status'' = CText ''expired''
      \<and> action r = ''updated'' \<and> entity r ''status'' = CText ''active'')
   \<and> (\<exists>r d' old.
      EventOpportunityModel_create example_engine hackathon_again (JStr ''hackathon'')
        stale_store = (Inr r, d')
      \<and> find (same_key opportunities_event (entity r)) (event_rows stale_store) = Some old
      \<and> old ''status'' = CText ''archived''
      \<and> action r = ''updated'' \<and> entity r ''status'' = CText ''active'')"
proof (rule conjI)
  from stale_job_conflict obtain r d' old where
    h: "WorkOpportunityModel_create example_engine job_again (JStr ''job'') stale_store
          = (Inr r, d')
        \<and> find (same_key opportunities_work (entity r)) (work_rows stale_store) = Some old"
    and o: "old ''status'' = CText ''expired''"
    by blast
  from mp [OF conjunct1 [OF conflict_path_revives_status] h] o
  have "action r = ''updated'' \<and> entity r ''status'' = CText ''active''" by simp
  with h o show "\<exists>r d' old.
      WorkOpportunityModel_create example_engine job_again (JStr ''job'') stale_store
        = (Inr r, d')
      \<and> find (same_key opportunities_work (entity r)) (work_rows stale_store) = Some old
      \<and> old ''status'' = CText ''expired''
      \<and> action r = ''updated'' \<and> entity r ''status'' = CText ''active''"
    by blast
next
  from stale_hackathon_conflict obtain r d' old where
    h: "EventOpportunityModel_create example_engine hackathon_again (JStr ''hackathon'')
          stale_store = (Inr r, d')
        \<and> find (same_key opportunities_event (entity r)) (event_rows stale_store) = Some old"
    and o: "old ''status'' = CText ''archived''"
    by blast
  from mp [OF conjunct2 [OF conflict_path_revives_status] h] o
  have "action r = ''updated'' \<and> entity r ''status'' = CText ''active''" by simp
  with h o show "\<exists>r d' old.
      EventOpportunityModel_create example_engine hackathon_again (JStr ''hackathon'')
        stale_store = (Inr r, d')
      \<and> find (same_key opportunities_event (entity r)) (event_rows stale_store) = Some old
      \<and> old ''status'' = CText ''archived''
      \<and> action r = ''updated'' \<and> entity r ''status'' = CText ''active''"
    by blast
qed

theorem conflict_path_keeps_identity_and_flags_witness:
  "(\<exists>r d' old.
      WorkOpportunityModel_create example_engine job_again (JStr ''job'') stale_store
        = (Inr r, d')
      \<and> find (same_key opportunities_work (entity r)) (work_rows stale_store) = Some old
      \<and> entity r ''is_verified'' = CBool True \<and> entity r ''is_featured'' = CBool False
      \<and> entity r ''source'' = CText ''scraper'' \<and> entity r ''external_id'' = CText ''ext-1'')
   \<and> (\<exists>r d' old.
      EventOpportunityModel_create example_engine hackathon_again (JStr ''hackathon'')
        stale_store = (Inr r, d')
      \<and> find (same_key opportunities_event (entity r)) (event_rows stale_store) = Some old
      \<and> entity r ''is_verified'' = CBool False \<and> entity r ''is_featured'' = CBool True
      \<and> entity r ''source'' = CText ''scraper'')"
proof (rule conjI)
  from stale_job_conflict obtain r d' old where
    h: "WorkOpportunityModel_create example_engine job_again (JStr ''job'') stale_store
          = (Inr r, d')
        \<and> find (same_key opportunities_work (entity r)) (work_rows stale_store) = Some old"
    and o: "old ''is_verified'' = CBool True" "old ''is_featured'' = CBool False"
           "old ''source'' = CText ''scraper''" "old ''external_id'' = CText ''ext-1''"
    by blast
  from mp [OF conjunct1 [OF conflict_path_keeps_identity_and_flags] h] o
  have "entity r ''is_verified'' = CBool True \<and> entity r ''is_featured'' = CBool False
      \<and> entity r ''source'' = CText ''scraper'' \<and> entity r ''external_id'' = CText ''ext-1''"
    by simp
  with h show "\<exists>r d' old.
      WorkOpportunityModel_create example_engine job_again (JStr ''job'') stale_store
        = (Inr r, d')
      \<and> find (same_key opportunities_work (entity r)) (work_rows stale_store) = Some old
      \<and> entity r ''is_verified'' = CBool True \<and> entity r ''is_featured'' = CBool False
      \<and> entity r ''source'' = CText ''scraper'' \<and> entity r ''external_id'' = CText ''ext-1''"
    by blast
next
  from stale_hackathon_conflict obtain r d' old where
    h: "EventOpportunityModel_create example_engine hackathon_again (JStr ''hackathon'')
          stale_store = (Inr r, d')
        \<and> find (same_key opportunities_event (entity r)) (event_rows stale_store) = Some old"
    and o: "old ''is_verified'' = CBool False" "old ''is_featured'' = CBool True"
           "old ''source'' = CText ''scraper''"
    by blast
  from mp [OF conjunct2 [OF conflict_path_keeps_identity_and_flags] h] o
  have "entity r ''is_verified'' = CBool False \<and> entity r ''is_featured'' = CBool True
      \<and> entity r ''source'' = CText ''scraper''"
    by simp
  with h show "\<exists>r d' old.
      EventOpportunityModel_create example_engine hackathon_again (JStr ''hackathon'')
        stale_store = (Inr r, d')
      \<and> find (same_key opportunities_event (entity r)) (event_rows stale_store) = Some old
      \<and> entity r ''is_verified'' = CBool False \<and> entity r ''is_featured'' = CBool True
      \<and> entity r ''source'' = CText ''scraper''"
    by blast
qed

lemma submitted_twice:
  "(case create opportunities_work example_engine first_submission (JStr ''internship'')
           empty_store of
      (Inr r1, d1) \<Rightarrow>
        (case create opportunities_work example_engine first_submission (JStr ''internship'') d1 of
           (Inr r2, d2) \<Rightarrow> True
         | (Inl e, d2) \<Rightarrow> False)
    | (Inl e, d1) \<Rightarrow> False)"
  by code_simp

theorem create_twice_stores_one_row_witness:
  "\<exists>r1 d1 r2 d2.
     create opportunities_work example_engine first_submission (JStr ''internship'') empty_store
       = (Inr r1, d1)
     \<and> create opportunities_work example_engine first_submission (JStr ''internship'') d1
       = (Inr r2, d2)
     \<and> action r1 = ''created'' \<and> action r2 = ''updated''
     \<and> length (filter (same_key opportunities_work (entity r1)) (work_rows d2)) = 1
     \<and> length (work_rows d2) = 1
     \<and> queries d2 = 2"
proof -
  from submitted_twice obtain r1 d1 r2 d2 where
    c1: "create opportunities_work example_engine first_submission (JStr ''internship'')
           empty_store = (Inr r1, d1)"
    and c2: "create opportunities_work example_engine first_submission (JStr ''internship'') d1
           = (Inr r2, d2)"
    by (auto split: prod.splits sum.splits)
  have fresh: "find (same_key opportunities_work (entity r1))
                 (rows_of opportunities_work empty_store) = None"
    by (simp add: empty_store_def)
  from create_twice_stores_one_row [OF c1 c2 refl fresh]
  have "action r1 = ''created'' \<and> action r2 = ''updated''
     \<and> length (filter (same_key opportunities_work (entity r1)) (work_rows d2)) = 1
     \<and> length (work_rows d2) = 1
     \<and> queries d2 = 2"
    by (simp add: empty_store_def)
  with c1 c2 show ?thesis by blast
qed

section \<open>The parameters of a compiled filter\<close>

text \<open>
  The statements that \<open>findAll\<close> sends are well-formed: the predicates of a compiled filter
  refer to exactly the parameters that are bound, and the limit and offset take the next
  two. A page never holds more rows than the limit, and a batch of 1 to 500 items passes
  the guards.
\<close>

lemma push_numbered:
  "numbered s \<Longrightarrow> cond_params c = [paramIndex s] \<Longrightarrow> numbered (push c v s)"
  by (simp add: numbered_def push_def)

lemma type_filter_numbered: "numbered s \<Longrightarrow> numbered (type_filter filters s)"
  by (simp add: type_filter_def push_numbered)

lemma status_filter_numbered: "numbered s \<Longrightarrow> numbered (status_filter filters s)"
  by (simp add: status_filter_def push_numbered)

lemma city_filter_numbered: "numbered s \<Longrightarrow> numbered (city_filter filters s)"
  by (simp add: city_filter_def push_numbered)

lemma country_filter_numbered: "numbered s \<Longrightarrow> numbered (country_filter filters s)"
  by (simp add: country_filter_def push_numbered)

lemma work_style_filter_numbered: "numbered s \<Longrightarrow> numbered (work_style_filter filters s)"
  by (simp add: work_style_filter_def push_numbered)

lemma featured_filter_numbered: "numbered s \<Longrightarrow> numbered (featured_filter filters s)"
  by (simp add: featured_filter_def numbered_def)

lemma verified_filter_numbered: "numbered s \<Longrightarrow> numbered (verified_filter filters s)"
  by (simp add: verified_filter_def numbered_def)

lemma search_filter_numbered: "numbered s \<Longrightarrow> numbered (search_filter filters s)"
  by (simp add: search_filter_def push_numbered)

lemma array_filter_numbered:
  "numbered s \<Longrightarrow> array_filter key mk filters s = Inr s' \<Longrightarrow>
   (\<And>i. cond_params (mk i) = [i]) \<Longrightarrow> numbered s'"
  by (auto simp: array_filter_def push_numbered split: if_splits sum.splits)

lemma fees_filter_numbered: "numbered s \<Longrightarrow> numbered (fees_filter filters s)"
  by (simp add: fees_filter_def push_numbered)

lemma push_window_numbered: "numbered s \<Longrightarrow> numbered (push_window now days s)"
  by (simp add: numbered_def push_window_def)

lemma deadline_filter_numbered: "numbered s \<Longrightarrow> numbered (deadline_filter filters now s)"
  by (simp add: deadline_filter_def push_window_numbered)

lemma buildWhereClause_numbered:
  assumes "buildWhereClause filters now = Inr s"
  shows "numbered s"
proof -
  have s0: "numbered \<lparr> conditions = [], vals = [], paramIndex = 1 \<rparr>"
    by (simp add: numbered_def)
  let ?s8 = "search_filter filters (verified_filter filters (featured_filter filters
              (work_style_filter filters (country_filter filters (city_filter filters
                (status_filter filters (type_filter filters
                   \<lparr> conditions = [], vals = [], paramIndex = 1 \<rparr>)))))))"
  have s8: "numbered ?s8"
    by (intro search_filter_numbered verified_filter_numbered featured_filter_numbered
          work_style_filter_numbered country_filter_numbered city_filter_numbered
          status_filter_numbered type_filter_numbered s0)
  from assms obtain s9 s10 s11 where
    a9: "array_filter ''tags'' TagsOverlap filters ?s8 = Inr s9"
    and a10: "array_filter ''skills'' SkillsOverlap filters s9 = Inr s10"
    and a11: "array_filter ''domain'' DomainOverlap filters s10 = Inr s11"
    and fin: "s = deadline_filter filters now (fees_filter filters s11)"
    by (auto simp: buildWhereClause_def Let_def split: sum.splits)
  have "numbered s9" using array_filter_numbered [OF s8 a9] by simp
  then have "numbered s10" using array_filter_numbered [OF _ a10] by simp
  then have "numbered s11" using array_filter_numbered [OF _ a11] by simp
  then show ?thesis unfolding fin by (intro deadline_filter_numbered fees_filter_numbered)
qed

lemma params_match_upt: "params_match [1..<Suc n] n"
  by (auto simp: params_match_def list_all_iff)

lemma params_match_upt_extra: "params_match ([1..<Suc n] @ [Suc n, Suc n + 1]) (n + 2)"
  by (auto simp: params_match_def list_all_iff)

lemma compiled_filter_parameters_match:
  assumes "buildWhereClause filters now = Inr s"
  shows "paramIndex s = Suc (length (vals s))"
    and "params_match (concat (map cond_params (conditions s))) (length (vals s))"
    and "params_match (concat (map cond_params (conditions s)) @ [paramIndex s, paramIndex s + 1])
           (length (vals s) + 2)"
  using buildWhereClause_numbered [OF assms] params_match_upt [of "length (vals s)"]
    params_match_upt_extra [of "length (vals s)"]
  by (simp_all add: numbered_def)

lemma page_is_at_most_limit:
  "findAll eng tbl filters p l now d = (Inr res, d') \<Longrightarrow> int (length (data res)) \<le> l"
  by (auto simp: findAll_def Let_def split: sum.splits if_splits)

lemma batch_within_limit_is_processed:
  assumes "items_of (opportunities req) = Some xs" and "xs \<noteq> []" and "length xs \<le> 500"
    and "separate (source req) xs = Inr parts"
  shows "\<exists>rep d'. batchCreate eng req d = (Inr \<lparr> statusCode = 200, body = rep \<rparr>, d')"
  using assms
  by (cases parts) (auto simp: batchCreate_def Let_def split: prod.splits)

end
